theory Spec2Isabelle
  imports Main
begin

section \<open>Python values, exceptions and text\<close>

text \<open>
  The cleaning functions of \<^verbatim>\<open>etl.py\<close> and the scoring function of
  \<^verbatim>\<open>risk_score.py\<close> receive untyped cells of a data frame. A cell is modelled
  by \<open>pyval\<close>: \<^verbatim>\<open>None\<close>, a bool, an int, a float (with NaN and the infinities) or a
  string. Strings are lists of 8-bit characters, read as the code points 0 to 255 (Latin-1).
  The character classes \<^verbatim>\<open>[a-z]\<close> and \<^verbatim>\<open>[A-Z]\<close> of the regular expressions
  of the source are the ASCII letters, and \<^verbatim>\<open>\d\<close> matches the digits 0 to 9 only among
  these code points; white space and case mapping are those of Python's \<^verbatim>\<open>str\<close> on
  these code points.

  A float is a sign, a mantissa and a binary exponent (value \<open>m * 2 ^ e\<close>), always kept in
  the form IEEE 754 binary64 stores: \<open>2 ^ 52 \<le> m < 2 ^ 53\<close> for a normal number,
  \<open>e = - 1074\<close> for a subnormal one, and \<open>Finite s 0 0\<close> for zero.

  An exception of the source is a value: every function that can raise returns
  \<open>exn + 'a\<close>, with \<open>Inl\<close> the exception.
\<close>

datatype exn = ValueError | TypeError | AttributeError | OverflowError | KeyError

datatype pyfloat = Finite bool nat int | Infinite bool | NaN

datatype pyval = PNone | PBool bool | PInt int | PFloat pyfloat | PStr string

subsection \<open>Characters and strings\<close>

definition is_digit :: "char \<Rightarrow> bool" where
  "is_digit c = (c \<in> set ''0123456789'')"

definition is_lower :: "char \<Rightarrow> bool" where
  "is_lower c = (c \<in> set ''abcdefghijklmnopqrstuvwxyz'')"

definition is_upper :: "char \<Rightarrow> bool" where
  "is_upper c = (c \<in> set ''ABCDEFGHIJKLMNOPQRSTUVWXYZ'')"

text \<open>The characters \<^verbatim>\<open>str.strip()\<close> removes, those of \<^verbatim>\<open>str.isspace()\<close>: tab,
  line feed, vertical tab, form feed, carriage return, the four separators 0x1C to 0x1F, the
  space, the next-line character 0x85 and the no-break space 0xA0.\<close>

definition is_space :: "char \<Rightarrow> bool" where
  "is_space c = (c \<in> set [CHR 0x09, CHR 0x0A, CHR 0x0B, CHR 0x0C, CHR 0x0D,
                           CHR 0x1C, CHR 0x1D, CHR 0x1E, CHR 0x1F, CHR 0x20,
                           CHR 0x85, CHR 0xA0])"

text \<open>\<^verbatim>\<open>str.lower()\<close>: the letters A to Z and the Latin-1 capitals 0xC0 to 0xDE (the
  multiplication sign 0xD7 is none) move 32 code points up; nothing else changes.\<close>

definition is_latin_upper :: "char \<Rightarrow> bool" where
  "is_latin_upper c =
     (192 \<le> (of_char c :: nat) \<and> (of_char c :: nat) \<le> 222 \<and> (of_char c :: nat) \<noteq> 215)"

definition to_lower :: "char \<Rightarrow> char" where
  "to_lower c =
     (case map_of (zip ''ABCDEFGHIJKLMNOPQRSTUVWXYZ'' ''abcdefghijklmnopqrstuvwxyz'') c of
        Some l \<Rightarrow> l
      | None \<Rightarrow> if is_latin_upper c then char_of (of_char c + (32 :: nat)) else c)"

definition lower :: "string \<Rightarrow> string" where
  "lower s = map to_lower s"

text \<open>
  \<^verbatim>\<open>str.capitalize()\<close>: the first character in title case, all the others in lower
  case. The title case of the letters a to z and of the Latin-1 small letters 0xE0 to 0xFE
  (the division sign 0xF7 is none) lies 32 code points down; that of the sharp s 0xDF is the
  two letters \<^verbatim>\<open>Ss\<close>. The capitals of the micro sign 0xB5 and of the y with diaeresis
  0xFF are no 8-bit characters: there the result is no text of this model, \<open>None\<close>.
\<close>

definition is_latin_lower :: "char \<Rightarrow> bool" where
  "is_latin_lower c =
     (224 \<le> (of_char c :: nat) \<and> (of_char c :: nat) \<le> 254 \<and> (of_char c :: nat) \<noteq> 247)"

definition title_char :: "char \<Rightarrow> string option" where
  "title_char c =
     (case map_of (zip ''abcdefghijklmnopqrstuvwxyz'' ''ABCDEFGHIJKLMNOPQRSTUVWXYZ'') c of
        Some u \<Rightarrow> Some [u]
      | None \<Rightarrow>
          if is_latin_lower c then Some [char_of (of_char c - (32 :: nat))]
          else if c = CHR 0xDF then Some ''Ss''
          else if c = CHR 0xB5 \<or> c = CHR 0xFF then None
          else Some [c])"

definition capitalize :: "string \<Rightarrow> string option" where
  "capitalize s =
     (case s of
        [] \<Rightarrow> Some []
      | c # cs \<Rightarrow> (case title_char c of Some t \<Rightarrow> Some (t @ map to_lower cs) | None \<Rightarrow> None))"

definition strip :: "string \<Rightarrow> string" where
  "strip s = rev (dropWhile is_space (rev (dropWhile is_space s)))"

definition startswith :: "string \<Rightarrow> string \<Rightarrow> bool" where
  "startswith s p = (take (length p) s = p)"

definition endswith :: "string \<Rightarrow> string \<Rightarrow> bool" where
  "endswith s p = (length p \<le> length s \<and> drop (length s - length p) s = p)"

text \<open>\<^verbatim>\<open>s.replace(old, new)\<close>: every occurrence of \<open>old\<close>, leftmost first and
  without overlap. The source only calls it with a non-empty \<open>old\<close>; for the empty one
  Python puts \<open>new\<close> around every character.\<close>

fun replace_from :: "string \<Rightarrow> string \<Rightarrow> string \<Rightarrow> string" where
  "replace_from old new [] = []"
| "replace_from old new (c # cs) =
     (if startswith (c # cs) old
      then new @ replace_from old new (drop (length old - 1) cs)
      else c # replace_from old new cs)"

definition replace :: "string \<Rightarrow> string \<Rightarrow> string \<Rightarrow> string" where
  "replace s old new =
     (if old = [] then new @ concat (map (\<lambda>c. c # new) s) else replace_from old new s)"

text \<open>\<^verbatim>\<open>s.split(sep)\<close> for a one-character separator: one part more than there are
  separators.\<close>

fun split :: "string \<Rightarrow> char \<Rightarrow> string list" where
  "split [] sep = [[]]"
| "split (c # cs) sep =
     (if c = sep then [] # split cs sep
      else (case split cs sep of p # ps \<Rightarrow> (c # p) # ps | [] \<Rightarrow> [[c]]))"

text \<open>\<^verbatim>\<open>re.sub(r"a1|a2|...", "", s)\<close> for literal alternatives: at each position,
  from the left, the first alternative that matches there is removed and the search goes on
  behind it.\<close>

fun first_match :: "string list \<Rightarrow> string \<Rightarrow> string option" where
  "first_match [] s = None"
| "first_match (a # as) s =
     (if a \<noteq> [] \<and> startswith s a then Some a else first_match as s)"

fun re_sub_alts :: "string list \<Rightarrow> string \<Rightarrow> string" where
  "re_sub_alts alts [] = []"
| "re_sub_alts alts (c # cs) =
     (case first_match alts (c # cs) of
        Some a \<Rightarrow> re_sub_alts alts (drop (length a - 1) cs)
      | None \<Rightarrow> c # re_sub_alts alts cs)"

text \<open>\<^verbatim>\<open>re.sub(r'(?<=[a-z])([A-Z])', r' \1', s)\<close>: a space goes in front of every
  upper-case letter that directly follows a lower-case letter of \<open>s\<close>. The first argument says
  whether the character before the rest is a lower-case letter.\<close>

fun camel_from :: "bool \<Rightarrow> string \<Rightarrow> string" where
  "camel_from prev [] = []"
| "camel_from prev (c # cs) =
     (if prev \<and> is_upper c then CHR '' '' # c # camel_from (is_lower c) cs
      else c # camel_from (is_lower c) cs)"

definition camel_split :: "string \<Rightarrow> string" where
  "camel_split s = camel_from False s"

subsection \<open>Decimal numerals\<close>

definition digit_char :: "nat \<Rightarrow> char" where
  "digit_char n = ''0123456789'' ! (n mod 10)"

definition digit_val :: "char \<Rightarrow> nat" where
  "digit_val c =
     (case map_of (zip ''0123456789'' [0, 1, 2, 3, 4, 5, 6, 7, 8, 9]) c of
        Some n \<Rightarrow> n | None \<Rightarrow> 0)"

definition digits_val :: "string \<Rightarrow> nat" where
  "digits_val s = foldl (\<lambda>a c. 10 * a + digit_val c) 0 s"

fun str_nat :: "nat \<Rightarrow> string" where
  "str_nat n = (if n < 10 then [digit_char n] else str_nat (n div 10) @ [digit_char n])"

declare str_nat.simps [simp del]

definition str_int :: "int \<Rightarrow> string" where
  "str_int i = (if i < 0 then CHR ''-'' # str_nat (nat (- i)) else str_nat (nat i))"

subsection \<open>Floats\<close>

text \<open>
  \<open>round_double s n d\<close> is the binary64 number nearest to the rational \<open>n / d\<close>
  (\<open>0 < d\<close>), ties to the even mantissa, with sign \<open>s\<close> (\<open>True\<close> for minus); it
  overflows to an infinity. Python's \<^verbatim>\<open>float(text)\<close> and its float multiplication
  are both correctly rounded, so both go through this function.
\<close>

fun bitlen :: "nat \<Rightarrow> nat" where
  "bitlen n = (if n = 0 then 0 else Suc (bitlen (n div 2)))"

declare bitlen.simps [simp del]

definition floor_log2 :: "nat \<Rightarrow> nat \<Rightarrow> int" where
  "floor_log2 n d =
     (let b = int (bitlen n) - int (bitlen d)
      in if (if 0 \<le> b then d * 2 ^ nat b \<le> n else d \<le> n * 2 ^ nat (- b)) then b else b - 1)"

definition rne :: "nat \<Rightarrow> nat \<Rightarrow> nat" where
  "rne a b =
     (let q = a div b; r = a mod b
      in if 2 * r < b then q else if b < 2 * r then q + 1 else if even q then q else q + 1)"

definition round_double :: "bool \<Rightarrow> nat \<Rightarrow> nat \<Rightarrow> pyfloat" where
  "round_double s n d =
     (if n = 0 then Finite s 0 0
      else
        let e = max (floor_log2 n d - 52) (- 1074);
            m = (if 0 \<le> e then rne n (d * 2 ^ nat e) else rne (n * 2 ^ nat (- e)) d);
            e' = (if m = 2 ^ 53 then e + 1 else e);
            m' = (if m = 2 ^ 53 then 2 ^ 52 else m)
        in if 971 < e' then Infinite s else if m' = 0 then Finite s 0 0 else Finite s m' e')"

definition round_scaled :: "bool \<Rightarrow> nat \<Rightarrow> int \<Rightarrow> pyfloat" where
  "round_scaled s m e =
     (if 0 \<le> e then round_double s (m * 2 ^ nat e) 1 else round_double s m (2 ^ nat (- e)))"

text \<open>\<^verbatim>\<open>float(i)\<close> for an int, also the conversion of an int operand of a float
  operation: an int beyond the float range raises \<^verbatim>\<open>OverflowError\<close>.\<close>

definition float_of_int :: "int \<Rightarrow> exn + pyfloat" where
  "float_of_int i =
     (case round_double (i < 0) (nat \<bar>i\<bar>) 1 of
        Infinite s \<Rightarrow> Inl OverflowError
      | f \<Rightarrow> Inr f)"

text \<open>The float of a natural number, for writing float constants: \<open>float_of_nat 2000000\<close>
  is \<^verbatim>\<open>2000000.0\<close>.\<close>

definition float_of_nat :: "nat \<Rightarrow> pyfloat" where
  "float_of_nat n = round_double False n 1"

fun fmul :: "pyfloat \<Rightarrow> pyfloat \<Rightarrow> pyfloat" where
  "fmul (Finite s m e) (Finite t n f) = round_scaled (s \<noteq> t) (m * n) (e + f)"
| "fmul (Finite s m e) (Infinite t) = (if m = 0 then NaN else Infinite (s \<noteq> t))"
| "fmul (Infinite s) (Finite t n f) = (if n = 0 then NaN else Infinite (s \<noteq> t))"
| "fmul (Infinite s) (Infinite t) = Infinite (s \<noteq> t)"
| "fmul NaN y = NaN"
| "fmul x NaN = NaN"

text \<open>\<^verbatim>\<open>x * k\<close> for a float \<open>x\<close> and an int \<open>k\<close>.\<close>

definition fmul_int :: "pyfloat \<Rightarrow> int \<Rightarrow> exn + pyfloat" where
  "fmul_int x k = (case float_of_int k of Inl err \<Rightarrow> Inl err | Inr y \<Rightarrow> Inr (fmul x y))"

text \<open>Comparison of a float with an int is exact in Python; \<open>float_cmp_int x k\<close> is the
  sign of \<open>x - k\<close>, and NaN compares false with everything.\<close>

definition float_cmp_int :: "pyfloat \<Rightarrow> int \<Rightarrow> int option" where
  "float_cmp_int x k =
     (case x of
        NaN \<Rightarrow> None
      | Infinite s \<Rightarrow> Some (if s then - 1 else 1)
      | Finite s m e \<Rightarrow>
          (let z = (if s then - int m else int m);
               l = (if 0 \<le> e then z * 2 ^ nat e else z);
               r = (if 0 \<le> e then k else k * 2 ^ nat (- e))
           in Some (if l < r then - 1 else if r < l then 1 else 0)))"

definition float_gt_int :: "pyfloat \<Rightarrow> int \<Rightarrow> bool" where
  "float_gt_int x k = (float_cmp_int x k = Some 1)"

definition float_lt_int :: "pyfloat \<Rightarrow> int \<Rightarrow> bool" where
  "float_lt_int x k = (float_cmp_int x k = Some (- 1))"

subsection \<open>\<^verbatim>\<open>float(text)\<close>\<close>

text \<open>
  White space around the text is dropped; then an optional sign; then \<^verbatim>\<open>inf\<close>,
  \<^verbatim>\<open>infinity\<close> or \<^verbatim>\<open>nan\<close> in any case, or a decimal numeral: digits with at most
  one point and at least one digit, then an optional exponent. An underscore may stand
  between two digits. Anything else raises \<^verbatim>\<open>ValueError\<close>. The white space that
  \<^verbatim>\<open>float\<close> drops is not all that \<^verbatim>\<open>str.strip()\<close> removes: the four separators
  0x1C to 0x1F stay, and make the text no numeral.
\<close>

definition is_float_space :: "char \<Rightarrow> bool" where
  "is_float_space c = (c \<in> set [CHR 0x09, CHR 0x0A, CHR 0x0B, CHR 0x0C, CHR 0x0D, CHR 0x20,
                                 CHR 0x85, CHR 0xA0])"

definition float_strip :: "string \<Rightarrow> string" where
  "float_strip s = rev (dropWhile is_float_space (rev (dropWhile is_float_space s)))"

definition all_digits :: "string \<Rightarrow> bool" where
  "all_digits s = list_all is_digit s"

fun underscores_ok :: "bool \<Rightarrow> string \<Rightarrow> bool" where
  "underscores_ok prev [] = True"
| "underscores_ok prev (c # cs) =
     (if c = CHR ''_''
      then prev \<and> (case cs of [] \<Rightarrow> False | d # ds \<Rightarrow> is_digit d) \<and> underscores_ok False cs
      else underscores_ok (is_digit c) cs)"

definition parse_exponent :: "string \<Rightarrow> int option" where
  "parse_exponent s =
     (case s of
        [] \<Rightarrow> None
      | c # cs \<Rightarrow>
          if c = CHR ''-'' then (if cs \<noteq> [] \<and> all_digits cs then Some (- int (digits_val cs)) else None)
          else if c = CHR ''+'' then (if cs \<noteq> [] \<and> all_digits cs then Some (int (digits_val cs)) else None)
          else if all_digits s then Some (int (digits_val s)) else None)"

text \<open>The digits of a mantissa as a natural number, with the number of digits behind the
  point.\<close>

definition parse_mantissa :: "string \<Rightarrow> (nat \<times> nat) option" where
  "parse_mantissa s =
     (let ip = takeWhile (\<lambda>c. c \<noteq> CHR ''.'') s;
          fp = drop 1 (dropWhile (\<lambda>c. c \<noteq> CHR ''.'') s)
      in if all_digits ip \<and> all_digits fp \<and> ip @ fp \<noteq> []
         then Some (digits_val (ip @ fp), length fp) else None)"

definition is_exp_mark :: "char \<Rightarrow> bool" where
  "is_exp_mark c = (c = CHR ''e'' \<or> c = CHR ''E'')"

definition parse_decimal :: "bool \<Rightarrow> string \<Rightarrow> exn + pyfloat" where
  "parse_decimal neg u =
     (let mant = takeWhile (\<lambda>c. \<not> is_exp_mark c) u;
          rest = dropWhile (\<lambda>c. \<not> is_exp_mark c) u;
          ex = (if rest = [] then Some 0 else parse_exponent (drop 1 rest))
      in case (parse_mantissa mant, ex) of
           (Some (n, k), Some x) \<Rightarrow>
             (if int k \<le> x then Inr (round_double neg (n * 10 ^ nat (x - int k)) 1)
              else Inr (round_double neg n (10 ^ nat (int k - x))))
         | _ \<Rightarrow> Inl ValueError)"

definition float_of_str :: "string \<Rightarrow> exn + pyfloat" where
  "float_of_str s =
     (let t = float_strip s;
          neg = startswith t ''-'';
          u = (if startswith t ''-'' \<or> startswith t ''+'' then drop 1 t else t)
      in if t = [] then Inl ValueError
         else if lower u = ''inf'' \<or> lower u = ''infinity'' then Inr (Infinite neg)
         else if lower u = ''nan'' then Inr NaN
         else if underscores_ok False u then parse_decimal neg (filter (\<lambda>c. c \<noteq> CHR ''_'') u)
         else Inl ValueError)"

subsection \<open>Values\<close>

text \<open>\<^verbatim>\<open>pd.isna(v)\<close> for a scalar.\<close>

definition isna :: "pyval \<Rightarrow> bool" where
  "isna v = (v = PNone \<or> v = PFloat NaN)"

text \<open>\<^verbatim>\<open>str(v)\<close>. The text Python prints for a float (the shortest numeral that reads
  back as the same float) is not modelled: it is the parameter \<open>repr\<close>.\<close>

definition py_str :: "(pyfloat \<Rightarrow> string) \<Rightarrow> pyval \<Rightarrow> string" where
  "py_str repr v =
     (case v of
        PNone \<Rightarrow> ''None''
      | PBool b \<Rightarrow> (if b then ''True'' else ''False'')
      | PInt i \<Rightarrow> str_int i
      | PFloat x \<Rightarrow> repr x
      | PStr s \<Rightarrow> s)"

text \<open>The truth value of a scalar (\<^verbatim>\<open>not v\<close> is its negation).\<close>

definition truthy :: "pyval \<Rightarrow> bool" where
  "truthy v =
     (case v of
        PNone \<Rightarrow> False
      | PBool b \<Rightarrow> b
      | PInt i \<Rightarrow> i \<noteq> 0
      | PFloat x \<Rightarrow> (case x of Finite s m e \<Rightarrow> m \<noteq> 0 | _ \<Rightarrow> True)
      | PStr s \<Rightarrow> s \<noteq> [])"

text \<open>
  \<^verbatim>\<open>a == b\<close>, which also decides membership in a set or a dict: strings by their text,
  \<^verbatim>\<open>None\<close> only with itself, bools, ints and floats by their numeric value
  (\<^verbatim>\<open>True == 1 == 1.0\<close>), NaN with nothing. (Python finds a NaN in a container when it is
  the very same object; object identity is not modelled.)
\<close>

definition dyadic :: "pyval \<Rightarrow> (int \<times> int) option" where
  "dyadic v =
     (case v of
        PBool b \<Rightarrow> Some (if b then 1 else 0, 0)
      | PInt i \<Rightarrow> Some (i, 0)
      | PFloat (Finite s m e) \<Rightarrow> Some (if s then - int m else int m, e)
      | _ \<Rightarrow> None)"

definition py_eq :: "pyval \<Rightarrow> pyval \<Rightarrow> bool" where
  "py_eq a b =
     (case (a, b) of
        (PNone, PNone) \<Rightarrow> True
      | (PStr x, PStr y) \<Rightarrow> x = y
      | (PFloat (Infinite s), PFloat (Infinite t)) \<Rightarrow> s = t
      | _ \<Rightarrow>
          (case (dyadic a, dyadic b) of
             (Some (z, e), Some (w, f)) \<Rightarrow>
               z * 2 ^ nat (e - min e f) = w * 2 ^ nat (f - min e f)
           | _ \<Rightarrow> False))"

definition py_in :: "pyval \<Rightarrow> pyval list \<Rightarrow> bool" where
  "py_in v vs = list_ex (py_eq v) vs"

section \<open>The contract registry index\<close>

text \<open>
  \<^verbatim>\<open>get_provider_to_contracts_dict\<close> groups the registry by provider name: the index
  maps a provider name to the list of its contracts, each a dict with the keys
  \<^verbatim>\<open>contract_title\<close> and \<^verbatim>\<open>contract_number\<close> (the fields \<open>c_title\<close> and
  \<open>c_number\<close>; the full names are those of the resolvers' arguments).
\<close>

record contract =
  c_title :: pyval
  c_number :: pyval

type_synonym contract_index = "string \<rightharpoonup> contract list"

text \<open>\<^verbatim>\<open>key in d\<close> and \<^verbatim>\<open>d.get(key)\<close> for a cell as key: the keys of the index are
  strings, so only a string can be among them.\<close>

definition dict_has :: "contract_index \<Rightarrow> pyval \<Rightarrow> bool" where
  "dict_has d k = (case k of PStr s \<Rightarrow> d s \<noteq> None | _ \<Rightarrow> False)"

definition dict_get :: "contract_index \<Rightarrow> pyval \<Rightarrow> contract list option" where
  "dict_get d k = (case k of PStr s \<Rightarrow> d s | _ \<Rightarrow> None)"

text \<open>\<^verbatim>\<open>pd.isna(v) or str(v).strip() == ""\<close>\<close>

definition blank :: "(pyfloat \<Rightarrow> string) \<Rightarrow> pyval \<Rightarrow> bool" where
  "blank repr v = (isna v \<or> strip (py_str repr v) = [])"

type_synonym outcome = "bool option \<times> pyval"

section \<open>The cross-field resolvers\<close>

text \<open>The scan of \<^verbatim>\<open>clean_number\<close> over the contracts: the number of the first one
  whose title, as text, is the cleaned title.\<close>

fun scan_by_title :: "(pyfloat \<Rightarrow> string) \<Rightarrow> pyval \<Rightarrow> contract list \<Rightarrow> pyval option" where
  "scan_by_title repr title_clean [] = None"
| "scan_by_title repr title_clean (c # cs) =
     (if py_eq (PStr (py_str repr (c_title c))) title_clean
      then Some (c_number c)
      else scan_by_title repr title_clean cs)"

definition clean_number ::
  "(pyfloat \<Rightarrow> string) \<Rightarrow> pyval \<Rightarrow> pyval \<Rightarrow> pyval \<Rightarrow> contract_index \<Rightarrow> exn + outcome" where
  "clean_number repr provider_clean contract_number title_clean provider_to_contracts_dict =
     (if blank repr contract_number \<and> \<not> dict_has provider_to_contracts_dict provider_clean
      then Inr (None, contract_number)
      else
        case dict_get provider_to_contracts_dict (PStr []) of
          None \<Rightarrow> Inr (None, contract_number)
        | Some contracts \<Rightarrow>
            if contracts = [] then Inr (None, contract_number)
            else if py_in contract_number (map c_number contracts)
            then Inr (Some False, contract_number)
            else if blank repr title_clean then Inr (None, contract_number)
            else if length contracts = 1
            then Inr (Some True, c_number (hd contracts))
            else (case scan_by_title repr title_clean contracts of
                    Some n \<Rightarrow> Inr (Some True, n)
                  | None \<Rightarrow> Inr (None, contract_number)))"

text \<open>The scan of \<^verbatim>\<open>clean_title\<close> over the contracts: the title of the first one
  whose number, as text, is the trimmed raw number.\<close>

fun scan_by_number :: "(pyfloat \<Rightarrow> string) \<Rightarrow> string \<Rightarrow> contract list \<Rightarrow> pyval option" where
  "scan_by_number repr num [] = None"
| "scan_by_number repr num (c # cs) =
     (if py_str repr (c_number c) = num then Some (c_title c)
      else scan_by_number repr num cs)"

text \<open>In the scan, \<^verbatim>\<open>contract_num.strip()\<close> is called on the raw number as it is: when
  it is not a string (a numeric cell), the first round of the loop raises
  \<^verbatim>\<open>AttributeError\<close>.\<close>

definition clean_title ::
  "(pyfloat \<Rightarrow> string) \<Rightarrow> pyval \<Rightarrow> pyval \<Rightarrow> pyval \<Rightarrow> contract_index \<Rightarrow> exn + outcome" where
  "clean_title repr provider_clean contract_title contract_num provider_to_contracts_dict =
     (if blank repr contract_title \<and> \<not> dict_has provider_to_contracts_dict provider_clean
      then Inr (None, contract_title)
      else
        case dict_get provider_to_contracts_dict provider_clean of
          None \<Rightarrow> Inr (None, contract_title)
        | Some contracts \<Rightarrow>
            if contracts = [] then Inr (None, contract_title)
            else if py_in contract_title (map c_title contracts)
            then Inr (Some False, contract_title)
            else if blank repr contract_num then Inr (None, contract_title)
            else if length contracts = 1
            then Inr (Some True, c_title (hd contracts))
            else (case contract_num of
                    PStr s \<Rightarrow>
                      (case scan_by_number repr (strip s) contracts of
                         Some t \<Rightarrow> Inr (Some True, t)
                       | None \<Rightarrow> Inr (None, contract_title))
                  | _ \<Rightarrow> Inl AttributeError))"

section \<open>Rows of a data frame\<close>

text \<open>
  A cell of a row is a scalar or, in the two ledger columns, a list of field names. A row
  (a \<^verbatim>\<open>pd.Series\<close>) maps the column names it has to their cells.
\<close>

datatype cell = Val pyval | Lst "string list"

type_synonym row = "string \<rightharpoonup> cell"

text \<open>\<^verbatim>\<open>row.get(key)\<close>: \<^verbatim>\<open>None\<close> for a column the row does not have.\<close>

definition row_get :: "row \<Rightarrow> string \<Rightarrow> cell" where
  "row_get r key = (case r key of None \<Rightarrow> Val PNone | Some c \<Rightarrow> c)"

definition cell_truthy :: "cell \<Rightarrow> bool" where
  "cell_truthy c = (case c of Val v \<Rightarrow> truthy v | Lst l \<Rightarrow> l \<noteq> [])"

definition bind_exn :: "exn + 'a \<Rightarrow> ('a \<Rightarrow> exn + 'b) \<Rightarrow> exn + 'b" where
  "bind_exn m f = (case m of Inl err \<Rightarrow> Inl err | Inr x \<Rightarrow> f x)"

section \<open>The risk model\<close>

definition FAILED_WEIGHTS :: "(string \<times> int) list" where
  "FAILED_WEIGHTS =
     [(''Provider'', 5), (''InvoiceAmount'', 8), (''InvoiceDate'', 3), (''Title'', 5),
      (''Number'', 5)]"

definition MODIFIED_WEIGHTS :: "(string \<times> int) list" where
  "MODIFIED_WEIGHTS =
     [(''Provider'', 2), (''InvoiceAmount'', 4), (''InvoiceDate'', 1), (''Title'', 2),
      (''Number'', 2)]"

definition CONTRACT_WEIGHTS :: "(string \<times> int) list" where
  "CONTRACT_WEIGHTS = [(''Expired'', 15), (''ExpiringSoon'', 5), (''ContractMismatch'', 10)]"

definition FINANCIAL_WEIGHTS :: "(string \<times> int) list" where
  "FINANCIAL_WEIGHTS = [(''HighAmount'', 10), (''LowAmount'', 7)]"

definition HIGH_AMOUNT_THRESHOLD :: int where
  "HIGH_AMOUNT_THRESHOLD = 1000000"

definition LOW_AMOUNT_THRESHOLD :: int where
  "LOW_AMOUNT_THRESHOLD = 100"

text \<open>\<^verbatim>\<open>d.get(key, default)\<close> and \<^verbatim>\<open>d[key]\<close> on a weight table.\<close>

definition weights_get :: "(string \<times> int) list \<Rightarrow> string \<Rightarrow> int \<Rightarrow> int" where
  "weights_get d key dflt = (case map_of d key of Some w \<Rightarrow> w | None \<Rightarrow> dflt)"

definition weights_index :: "(string \<times> int) list \<Rightarrow> string \<Rightarrow> exn + int" where
  "weights_index d key = (case map_of d key of Some w \<Rightarrow> Inr w | None \<Rightarrow> Inl KeyError)"

text \<open>\<^verbatim>\<open>str(field).replace("_Clean", "").replace("_Flag", "").capitalize()\<close>\<close>

definition field_base :: "string \<Rightarrow> string option" where
  "field_base field = capitalize (replace (replace field ''_Clean'' []) ''_Flag'' [])"

text \<open>What one round of each of the two loops adds to the data-quality risk. A name whose
  capital letter is no 8-bit character is no key of the tables, all in ASCII.\<close>

definition failed_weight :: "string \<Rightarrow> int" where
  "failed_weight field =
     (case field_base field of
        Some base \<Rightarrow> weights_get FAILED_WEIGHTS base 5
      | None \<Rightarrow> 5)"

definition modified_weight :: "string \<Rightarrow> int" where
  "modified_weight field =
     (case field_base field of
        Some base \<Rightarrow> weights_get MODIFIED_WEIGHTS base 2
      | None \<Rightarrow> 2)"

text \<open>
  \<^verbatim>\<open>row.get(col, []) or []\<close>, as the \<^verbatim>\<open>for\<close> loop then walks it: a list gives its
  elements, a string its characters, a missing column or a false value nothing, and any other
  scalar is not iterable.
\<close>

definition fields_of :: "row \<Rightarrow> string \<Rightarrow> exn + string list" where
  "fields_of r col =
     (case r col of
        None \<Rightarrow> Inr []
      | Some c \<Rightarrow>
          if cell_truthy c
          then (case c of
                  Lst l \<Rightarrow> Inr l
                | Val (PStr s) \<Rightarrow> Inr (map (\<lambda>ch. [ch]) s)
                | Val other \<Rightarrow> Inl TypeError)
          else Inr [])"

text \<open>\<^verbatim>\<open>float(x)\<close> for a cell, and \<^verbatim>\<open>safe_float\<close>, which turns its
  \<^verbatim>\<open>TypeError\<close> and \<^verbatim>\<open>ValueError\<close> into NaN.\<close>

definition py_float :: "cell \<Rightarrow> exn + pyfloat" where
  "py_float c =
     (case c of
        Lst l \<Rightarrow> Inl TypeError
      | Val PNone \<Rightarrow> Inl TypeError
      | Val (PBool b) \<Rightarrow> float_of_int (if b then 1 else 0)
      | Val (PInt i) \<Rightarrow> float_of_int i
      | Val (PFloat x) \<Rightarrow> Inr x
      | Val (PStr s) \<Rightarrow> float_of_str s)"

definition safe_float :: "cell \<Rightarrow> exn + pyfloat" where
  "safe_float x =
     (case py_float x of
        Inr v \<Rightarrow> Inr v
      | Inl TypeError \<Rightarrow> Inr NaN
      | Inl ValueError \<Rightarrow> Inr NaN
      | Inl err \<Rightarrow> Inl err)"

text \<open>
  The registry map of \<^verbatim>\<open>add_risk_scores\<close>: a dict from the triple (provider, title,
  number) to the contract, of which the scoring reads \<^verbatim>\<open>expiry_date\<close>. A key with a list
  in it cannot be hashed.
\<close>

record registry_contract =
  expiry_date :: pyval

type_synonym contract_map = "((pyval \<times> pyval \<times> pyval) \<times> registry_contract) list"

fun map_find :: "contract_map \<Rightarrow> pyval \<Rightarrow> pyval \<Rightarrow> pyval \<Rightarrow> registry_contract option" where
  "map_find [] p t n = None"
| "map_find (((p', t', n'), c) # rest) p t n =
     (if py_eq p p' \<and> py_eq t t' \<and> py_eq n n' then Some c else map_find rest p t n)"

definition contract_map_get ::
  "contract_map \<Rightarrow> cell \<Rightarrow> cell \<Rightarrow> cell \<Rightarrow> exn + registry_contract option" where
  "contract_map_get m provider title number =
     (case (provider, title, number) of
        (Val p, Val t, Val n) \<Rightarrow> Inr (map_find m p t n)
      | _ \<Rightarrow> Inl TypeError)"

record risk =
  RiskScore :: int
  DataQualityRisk :: int
  ContractRisk :: int
  FinancialRisk :: int

text \<open>
  \<^verbatim>\<open>safe_date\<close> is \<^verbatim>\<open>pd.to_datetime(x, errors="coerce")\<close>, with every exception
  turned into \<^verbatim>\<open>NaT\<close>. The date parser of pandas is the parameter \<open>to_datetime\<close>: it
  gives \<open>None\<close> for \<^verbatim>\<open>NaT\<close>, or a time stamp, which is its nanoseconds since the
  epoch and whether it carries a time zone. Comparing or subtracting a time stamp with a
  time zone and one without raises \<^verbatim>\<open>TypeError\<close>.
\<close>

record timestamp =
  tz_aware :: bool
  nanos :: int

definition NANOS_PER_DAY :: int where
  "NANOS_PER_DAY = 86400000000000"

definition contract_risk_of ::
  "(cell \<Rightarrow> timestamp option) \<Rightarrow> registry_contract option \<Rightarrow> timestamp option
     \<Rightarrow> exn + int" where
  "contract_risk_of to_datetime contract inv_date =
     (case contract of
        Some c \<Rightarrow>
          (case (to_datetime (Val (expiry_date c)), inv_date) of
             (Some expiry, Some invoice) \<Rightarrow>
               if tz_aware expiry \<noteq> tz_aware invoice then Inl TypeError
               else if nanos expiry < nanos invoice
               then weights_index CONTRACT_WEIGHTS ''Expired''
               else if 0 \<le> (nanos expiry - nanos invoice) div NANOS_PER_DAY
                     \<and> (nanos expiry - nanos invoice) div NANOS_PER_DAY \<le> 90
               then weights_index CONTRACT_WEIGHTS ''ExpiringSoon''
               else Inr 0
           | _ \<Rightarrow> Inr 0)
      | None \<Rightarrow> weights_index CONTRACT_WEIGHTS ''ContractMismatch'')"

definition financial_risk_of :: "pyfloat \<Rightarrow> exn + int" where
  "financial_risk_of amount =
     (if amount = NaN then Inr 0
      else if float_gt_int amount HIGH_AMOUNT_THRESHOLD
      then weights_index FINANCIAL_WEIGHTS ''HighAmount''
      else if float_lt_int amount LOW_AMOUNT_THRESHOLD
      then weights_index FINANCIAL_WEIGHTS ''LowAmount''
      else Inr 0)"

definition compute_risk_score ::
  "(cell \<Rightarrow> timestamp option) \<Rightarrow> row \<Rightarrow> contract_map \<Rightarrow> exn + risk" where
  "compute_risk_score to_datetime r cmap =
     bind_exn (fields_of r ''FailedFields'') (\<lambda>failed_fields.
     bind_exn (fields_of r ''ModifiedFields'') (\<lambda>modified_fields.
       let data_quality_risk =
             sum_list (map failed_weight failed_fields)
               + sum_list (map modified_weight modified_fields);
           provider = row_get r ''Provider_Clean'';
           title = row_get r ''ContractTitle_Clean'';
           number = row_get r ''ContractNumber_Clean''
       in
     bind_exn (safe_float (row_get r ''InvoiceAmount_Clean'')) (\<lambda>amount.
       let inv_date = to_datetime (row_get r ''InvoiceDate_Clean'') in
     bind_exn (contract_map_get cmap provider title number) (\<lambda>contract.
     bind_exn (contract_risk_of to_datetime contract inv_date) (\<lambda>contract_risk.
     bind_exn (financial_risk_of amount) (\<lambda>financial_risk.
       Inr \<lparr>RiskScore = data_quality_risk + contract_risk + financial_risk,
            DataQualityRisk = data_quality_risk,
            ContractRisk = contract_risk,
            FinancialRisk = financial_risk\<rparr>))))))"

section \<open>The field normalizers\<close>

subsection \<open>Provider\<close>

text \<open>
  \<^verbatim>\<open>process.extractOne(query, choices, scorer=fuzz.token_set_ratio)\<close> of fuzzywuzzy scores
  every choice against the query and returns the first choice with the highest score, with
  that score, or \<^verbatim>\<open>None\<close> when there is no choice (its score cutoff is 0). The
  similarity measure itself is the parameter \<open>score\<close>.
\<close>

definition py_max :: "(string \<times> int) list \<Rightarrow> (string \<times> int) option" where
  "py_max xs =
     (case xs of
        [] \<Rightarrow> None
      | x # rest \<Rightarrow> Some (foldl (\<lambda>best y. if snd best < snd y then y else best) x rest))"

definition extractOne ::
  "(string \<Rightarrow> string \<Rightarrow> int) \<Rightarrow> string \<Rightarrow> string list \<Rightarrow> (string \<times> int) option" where
  "extractOne score query choices =
     py_max (filter (\<lambda>m. 0 \<le> snd m) (map (\<lambda>c. (c, score query c)) choices))"

text \<open>The first pass: the best match, when its score is at least the high threshold.\<close>

definition strict_pass ::
  "(string \<Rightarrow> string \<Rightarrow> int) \<Rightarrow> string \<Rightarrow> string list \<Rightarrow> int \<Rightarrow> string option" where
  "strict_pass score original correct_providers high_threshold =
     (case extractOne score original correct_providers of
        Some best_match \<Rightarrow> if high_threshold \<le> snd best_match then Some (fst best_match) else None
      | None \<Rightarrow> None)"

text \<open>The text the second pass searches with. The second pattern of the source is
  \<^verbatim>\<open>\(AU\)|(AUS)\<close>: the text \<^verbatim>\<open>(AU)\<close>, or the letters \<^verbatim>\<open>AUS\<close>.\<close>

definition lenient_text :: "string \<Rightarrow> string" where
  "lenient_text original = strip (re_sub_alts [''(AU)'', ''AUS''] (strip (camel_split original)))"

text \<open>The second pass: the best match for the normalized text, when its score is above the
  low threshold.\<close>

definition lenient_pass ::
  "(string \<Rightarrow> string \<Rightarrow> int) \<Rightarrow> string \<Rightarrow> string list \<Rightarrow> int \<Rightarrow> string option" where
  "lenient_pass score original correct_providers low_threshold =
     (case extractOne score (lenient_text original) correct_providers of
        Some best_match \<Rightarrow> if low_threshold < snd best_match then Some (fst best_match) else None
      | None \<Rightarrow> None)"

text \<open>Both passes end alike: changed when the match is not the trimmed input.\<close>

definition matched :: "string \<Rightarrow> string \<Rightarrow> outcome" where
  "matched original best = (if best \<noteq> original then (Some True, PStr best)
                            else (Some False, PStr original))"

definition clean_provider ::
  "(string \<Rightarrow> string \<Rightarrow> int) \<Rightarrow> pyval \<Rightarrow> string list \<Rightarrow> int \<Rightarrow> int \<Rightarrow> exn + outcome" where
  "clean_provider score provider correct_providers high_threshold low_threshold =
     (case provider of
        PStr s \<Rightarrow>
          if s = [] then Inr (None, provider)
          else
            (let original = strip s in
             case strict_pass score original correct_providers high_threshold of
               Some best \<Rightarrow> Inr (matched original best)
             | None \<Rightarrow>
                 (case lenient_pass score original correct_providers low_threshold of
                    Some best \<Rightarrow> Inr (matched original best)
                  | None \<Rightarrow> Inr (None, PStr original)))
      | _ \<Rightarrow> Inr (None, provider))"

subsection \<open>Amount\<close>

definition DEFAULT_UNIT :: int where
  "DEFAULT_UNIT = 1000000"

text \<open>\<^verbatim>\<open>re.sub(r"[^\d.]", "", s)\<close>\<close>

definition digits_and_dots :: "string \<Rightarrow> string" where
  "digits_and_dots s = filter (\<lambda>c. is_digit c \<or> c = CHR ''.'') s"

text \<open>With more than one point, all but the last are dropped.\<close>

definition collapse_dots :: "string \<Rightarrow> string" where
  "collapse_dots s =
     (if 1 < count_list s CHR ''.''
      then concat (butlast (split s CHR ''.'')) @ ''.'' @ last (split s CHR ''.'')
      else s)"

definition clean_invoice_amount :: "(pyfloat \<Rightarrow> string) \<Rightarrow> pyval \<Rightarrow> exn + outcome" where
  "clean_invoice_amount repr amount =
     (if amount = PNone \<or> amount = PFloat NaN then Inr (None, amount)
      else
        let original = strip (py_str repr amount);
            amount_str = strip (lower original)
        in
          if CHR ''m'' \<in> set amount_str
          then
            (case float_of_str
                    (digits_and_dots (strip (re_sub_alts [''m'', ''mil'', ''million''] amount_str))) of
               Inr v \<Rightarrow> bind_exn (fmul_int v DEFAULT_UNIT) (\<lambda>x. Inr (Some True, PFloat x))
             | Inl ValueError \<Rightarrow> Inr (None, PStr original)
             | Inl err \<Rightarrow> Inl err)
          else
            (let cleaned_amount_str = collapse_dots (digits_and_dots amount_str) in
             case float_of_str cleaned_amount_str of
               Inr v \<Rightarrow> Inr (Some (cleaned_amount_str \<noteq> original), PFloat v)
             | Inl ValueError \<Rightarrow> Inr (None, PStr original)
             | Inl TypeError \<Rightarrow> Inr (None, PStr original)
             | Inl err \<Rightarrow> Inl err))"

subsection \<open>Date\<close>


















section \<open>The issue ledger\<close>

text \<open>
  A data frame is its column names, in order, and its rows. \<^verbatim>\<open>record_issue\<close> first
  makes the two ledger columns columns of lists (a new column of empty lists, or the old
  column with every cell that is no list replaced by the empty list), then walks the columns
  whose name ends in \<^verbatim>\<open>_Flag\<close>: in every row where the flag is missing
  (\<^verbatim>\<open>isna\<close>) the field name is appended to the failed list, and in every row where
  the flag equals \<^verbatim>\<open>True\<close> it is appended to the modified list.
\<close>

record dataframe =
  columns :: "string list"
  rows :: "row list"

definition as_list :: "cell option \<Rightarrow> string list" where
  "as_list c = (case c of Some (Lst l) \<Rightarrow> l | _ \<Rightarrow> [])"

definition init_list_col :: "string \<Rightarrow> dataframe \<Rightarrow> dataframe" where
  "init_list_col col df =
     (if col \<in> set (columns df)
      then df\<lparr>rows := map (\<lambda>r. r(col \<mapsto> Lst (as_list (r col)))) (rows df)\<rparr>
      else df\<lparr>columns := columns df @ [col],
              rows := map (\<lambda>r. r(col \<mapsto> Lst [])) (rows df)\<rparr>)"

definition cell_isna :: "cell \<Rightarrow> bool" where
  "cell_isna c = (case c of Val v \<Rightarrow> isna v | Lst l \<Rightarrow> False)"

definition cell_is_true :: "cell \<Rightarrow> bool" where
  "cell_is_true c = (case c of Val v \<Rightarrow> py_eq v (PBool True) | Lst l \<Rightarrow> False)"

definition append_field :: "string \<Rightarrow> string \<Rightarrow> row \<Rightarrow> row" where
  "append_field col field_name r = r(col \<mapsto> Lst (as_list (r col) @ [field_name]))"

text \<open>The body of the loop over the flag columns, on one row.\<close>

definition mark_flag :: "string \<Rightarrow> string \<Rightarrow> string \<Rightarrow> row \<Rightarrow> row" where
  "mark_flag failed_col modified_col col r =
     (let field_name = replace col ''_Flag'' [];
          r1 = (if cell_isna (row_get r col) then append_field failed_col field_name r else r)
      in if cell_is_true (row_get r1 col) then append_field modified_col field_name r1 else r1)"

definition record_issue :: "dataframe \<Rightarrow> string \<Rightarrow> string \<Rightarrow> dataframe" where
  "record_issue df failed_col modified_col =
     (let df1 = init_list_col failed_col df;
          df2 = init_list_col modified_col df1;
          flag_cols = filter (\<lambda>c. endswith c ''_Flag'') (columns df2)
      in foldl (\<lambda>d col. d\<lparr>rows := map (mark_flag failed_col modified_col col) (rows d)\<rparr>)
           df2 flag_cols)"


text \<open>The characters the amount normalizer keeps.\<close>

definition digit_or_dot :: "char \<Rightarrow> bool" where
  "digit_or_dot c = (is_digit c \<or> c = CHR ''.'')"

section \<open>Properties\<close>

text \<open>
  Claim C1. \<^verbatim>\<open>clean_number\<close> looks the contracts up under the empty string, not under
  the cleaned provider name. So for every registry index with no entry under the empty
  string, whatever the cleaned provider, the raw number and the cleaned title are, the
  outcome is the unresolved flag (\<^verbatim>\<open>None\<close>) with the raw contract number retained.
\<close>

theorem clean_number_empty_key:
  assumes "provider_to_contracts_dict [] = None"
  shows "clean_number repr provider_clean contract_number title_clean provider_to_contracts_dict
           = Inr (None, contract_number)"
  using assms by (simp add: clean_number_def dict_get_def)

theorem clean_number_empty_key_witness:
  "[''Acme'' \<mapsto> [\<lparr>c_title = PStr ''Roads'', c_number = PInt 3665\<rparr>]] [] = None \<and>
   clean_number (\<lambda>x. []) (PStr ''Acme'') (PStr '' '') (PStr ''Roads'')
     [''Acme'' \<mapsto> [\<lparr>c_title = PStr ''Roads'', c_number = PInt 3665\<rparr>]]
     = Inr (None, PStr '' '')"
  using clean_number_empty_key
    [of "[''Acme'' \<mapsto> [\<lparr>c_title = PStr ''Roads'', c_number = PInt 3665\<rparr>]]"
        "\<lambda>x. []" "PStr ''Acme''" "PStr '' ''" "PStr ''Roads''"]
  by simp

text \<open>
  Claim C8. When the cleaned provider has exactly one contract in the registry index, the
  raw title is not among that provider's known titles (as a missing title is not) and the raw
  contract number is not blank, \<^verbatim>\<open>clean_title\<close> returns the title of that one contract
  with the resolved-changed flag (\<^verbatim>\<open>True\<close>), whatever the contract number is: the number
  is never compared with the contract's.
\<close>

theorem clean_title_single_contract:
  assumes "provider_to_contracts_dict p = Some [c]"
    and "\<not> py_in contract_title [c_title c]"
    and "\<not> blank repr contract_num"
  shows "clean_title repr (PStr p) contract_title contract_num provider_to_contracts_dict
           = Inr (Some True, c_title c)"
  using assms by (simp add: clean_title_def dict_get_def dict_has_def)

theorem clean_title_single_contract_witness:
  "[''Acme'' \<mapsto> [\<lparr>c_title = PStr ''Roads'', c_number = PInt 3665\<rparr>]] ''Acme''
     = Some [\<lparr>c_title = PStr ''Roads'', c_number = PInt 3665\<rparr>] \<and>
   \<not> py_in PNone [c_title \<lparr>c_title = PStr ''Roads'', c_number = PInt 3665\<rparr>] \<and>
   \<not> blank (\<lambda>x. []) (PStr ''9999'') \<and>
   clean_title (\<lambda>x. []) (PStr ''Acme'') PNone (PStr ''9999'')
     [''Acme'' \<mapsto> [\<lparr>c_title = PStr ''Roads'', c_number = PInt 3665\<rparr>]]
     = Inr (Some True, PStr ''Roads'')"
proof -
  let ?c = "\<lparr>c_title = PStr ''Roads'', c_number = PInt 3665\<rparr>"
  have h1: "[''Acme'' \<mapsto> [?c]] ''Acme'' = Some [?c]" by simp
  have h2: "\<not> py_in PNone [c_title ?c]" by (simp add: py_in_def py_eq_def dyadic_def)
  have h3: "\<not> blank (\<lambda>x. []) (PStr ''9999'')"
    by (simp add: blank_def isna_def py_str_def strip_def is_space_def)
  have "clean_title (\<lambda>x. []) (PStr ''Acme'') PNone (PStr ''9999'') [''Acme'' \<mapsto> [?c]]
          = Inr (Some True, c_title ?c)"
    using h1 h2 h3
    by (rule clean_title_single_contract
          [where provider_to_contracts_dict = "[''Acme'' \<mapsto> [?c]]" and p = "''Acme''"])
  with h1 h2 h3 show ?thesis by simp
qed

text \<open>
  Claim C4. For every field name, the weight the data-quality risk gains when the field is
  among the unresolved fields is strictly greater than the weight it gains when the field is
  among the changed fields, after the suffixes are removed and the name is capitalised; this
  includes the names that fall through to the default weights 5 and 2.
\<close>

theorem failed_weight_gt_modified_weight:
  "modified_weight field < failed_weight field"
  by (simp add: failed_weight_def modified_weight_def weights_get_def
        FAILED_WEIGHTS_def MODIFIED_WEIGHTS_def split: option.splits)

text \<open>
  Claim C2. The claim is that a record whose unresolved fields are exactly
  \<^verbatim>\<open>InvoiceAmount\<close>, whose changed fields are none, whose triple has no match in the
  registry map and whose cleaned amount is 2,000,000 gets the data-quality risk 8, the
  contract risk 10, the financial risk 10 and the total 28. The weight table holds 8 under the
  key \<^verbatim>\<open>InvoiceAmount\<close>, but \<^verbatim>\<open>capitalize()\<close> turns the field name into
  \<^verbatim>\<open>Invoiceamount\<close>, which is no key of the table: the default weight 5 is added, and the
  code returns the data-quality risk 5 and the total 25.
\<close>

lemma field_base_InvoiceAmount: "field_base ''InvoiceAmount'' = Some ''Invoiceamount''"
  by (simp add: field_base_def replace_def startswith_def capitalize_def title_char_def
        is_latin_lower_def to_lower_def is_latin_upper_def)

lemma float_of_nat_2000000: "float_of_nat 2000000 = Finite False 8589934592000000 (- 32)"
  by (simp add: float_of_nat_def round_double_def floor_log2_def rne_def bitlen.simps Let_def)

theorem compute_risk_score_amount_unresolved:
  "compute_risk_score (\<lambda>c. None)
     [''FailedFields'' \<mapsto> Lst [''InvoiceAmount''], ''ModifiedFields'' \<mapsto> Lst [],
      ''Provider_Clean'' \<mapsto> Val (PStr ''Acme''),
      ''ContractTitle_Clean'' \<mapsto> Val (PStr ''Roads''),
      ''ContractNumber_Clean'' \<mapsto> Val (PInt 3665),
      ''InvoiceAmount_Clean'' \<mapsto> Val (PFloat (float_of_nat 2000000)),
      ''InvoiceDate_Clean'' \<mapsto> Val (PStr ''2025-01-01'')] []
   = Inr \<lparr>RiskScore = 25, DataQualityRisk = 5, ContractRisk = 10, FinancialRisk = 10\<rparr>"
  by (simp add: compute_risk_score_def bind_exn_def fields_of_def cell_truthy_def row_get_def
        failed_weight_def modified_weight_def weights_get_def weights_index_def
        field_base_InvoiceAmount float_of_nat_2000000
        FAILED_WEIGHTS_def CONTRACT_WEIGHTS_def FINANCIAL_WEIGHTS_def safe_float_def py_float_def
        contract_map_get_def contract_risk_of_def financial_risk_of_def float_gt_int_def
        float_lt_int_def float_cmp_int_def HIGH_AMOUNT_THRESHOLD_def LOW_AMOUNT_THRESHOLD_def)

subsection \<open>Character classes\<close>

lemma digit_code: "is_digit c \<Longrightarrow> 48 \<le> (of_char c :: nat) \<and> (of_char c :: nat) \<le> 57"
  unfolding is_digit_def by (elim disjE | simp)+

lemma upper_code: "is_upper c \<Longrightarrow> 65 \<le> (of_char c :: nat) \<and> (of_char c :: nat) \<le> 90"
  unfolding is_upper_def by (elim disjE | simp)+

lemma lower_code: "is_lower c \<Longrightarrow> 97 \<le> (of_char c :: nat) \<and> (of_char c :: nat) \<le> 122"
  unfolding is_lower_def by (elim disjE | simp)+

lemma space_code:
  "is_space c \<Longrightarrow>
     (of_char c :: nat) \<le> 32 \<or> (of_char c :: nat) = 133 \<or> (of_char c :: nat) = 160"
  unfolding is_space_def by (elim disjE | simp)+


lemma to_lower_upper: "is_upper c \<Longrightarrow> is_lower (to_lower c)"
  unfolding is_upper_def by (elim disjE | simp add: to_lower_def is_lower_def)+

lemma to_lower_other: "\<not> is_upper c \<Longrightarrow> \<not> is_latin_upper c \<Longrightarrow> to_lower c = c"
  by (simp add: is_upper_def to_lower_def)

lemma to_lower_latin:
  assumes "is_latin_upper c"
  shows "224 \<le> (of_char (to_lower c) :: nat)"
proof -
  from assms have c: "192 \<le> (of_char c :: nat)" "(of_char c :: nat) \<le> 222"
    by (simp_all add: is_latin_upper_def)
  with upper_code [of c] have "\<not> is_upper c" by fastforce
  with assms have "to_lower c = char_of (of_char c + (32 :: nat))"
    by (simp add: is_upper_def to_lower_def)
  moreover from c have "(of_char c + 32) mod 256 = (of_char c + 32 :: nat)" by simp
  ultimately show ?thesis using c by simp
qed

lemma to_lower_below: "(of_char c :: nat) < 192 \<Longrightarrow> \<not> is_upper c \<Longrightarrow> to_lower c = c"
  by (rule to_lower_other) (simp_all add: is_latin_upper_def)

lemma digit_or_dot_code:
  "digit_or_dot c \<Longrightarrow> 46 \<le> (of_char c :: nat) \<and> (of_char c :: nat) \<le> 57"
  using digit_code [of c] by (auto simp: digit_or_dot_def)

lemma space_not_digit_or_dot: "is_space c \<Longrightarrow> \<not> digit_or_dot c"
proof
  assume "is_space c" and "digit_or_dot c"
  with space_code [of c] digit_or_dot_code [of c] show False by fastforce
qed

lemma to_lower_digit_or_dot: "digit_or_dot (to_lower c) = digit_or_dot c"
proof (cases "is_upper c")
  case True
  from lower_code [OF to_lower_upper [OF True]] digit_or_dot_code [of "to_lower c"]
  have "\<not> digit_or_dot (to_lower c)" by fastforce
  moreover from upper_code [OF True] digit_or_dot_code [of c]
  have "\<not> digit_or_dot c" by fastforce
  ultimately show ?thesis by simp
next
  case False
  show ?thesis
  proof (cases "is_latin_upper c")
    case True
    from to_lower_latin [OF True] digit_or_dot_code [of "to_lower c"]
    have "\<not> digit_or_dot (to_lower c)" by fastforce
    moreover from True digit_or_dot_code [of c]
    have "\<not> digit_or_dot c" by (fastforce simp: is_latin_upper_def)
    ultimately show ?thesis by simp
  next
    case latin: False
    with False show ?thesis by (simp add: to_lower_other)
  qed
qed

lemma to_lower_keeps: "digit_or_dot c \<Longrightarrow> to_lower c = c"
proof -
  assume "digit_or_dot c"
  with upper_code [of c] digit_or_dot_code [of c]
  have "(of_char c :: nat) < 192" and "\<not> is_upper c" by fastforce+
  then show ?thesis by (rule to_lower_below)
qed

subsection \<open>What the amount normalizer keeps of a text\<close>

lemma digits_and_dots_filter: "digits_and_dots s = filter digit_or_dot s"
  by (simp add: digits_and_dots_def digit_or_dot_def [abs_def])

lemma filter_dropWhile_disjoint:
  assumes "\<And>x. Q x \<Longrightarrow> \<not> P x"
  shows "filter P (dropWhile Q xs) = filter P xs"
  using assms by (induction xs) auto

lemma digits_and_dots_strip: "digits_and_dots (strip t) = digits_and_dots t"
proof -
  have "filter digit_or_dot (rev (dropWhile is_space (rev (dropWhile is_space t))))
        = rev (filter digit_or_dot (dropWhile is_space (rev (dropWhile is_space t))))"
    by (simp add: rev_filter)
  also have "\<dots> = rev (filter digit_or_dot (rev (dropWhile is_space t)))"
    by (simp add: filter_dropWhile_disjoint space_not_digit_or_dot)
  also have "\<dots> = filter digit_or_dot (dropWhile is_space t)"
    by (simp add: rev_filter)
  also have "\<dots> = filter digit_or_dot t"
    by (simp add: filter_dropWhile_disjoint space_not_digit_or_dot)
  finally show ?thesis by (simp add: digits_and_dots_filter strip_def)
qed

lemma digits_and_dots_lower: "digits_and_dots (lower t) = digits_and_dots t"
proof (induction t)
  case Nil
  show ?case by (simp add: lower_def)
next
  case (Cons c t)
  then have ih: "filter digit_or_dot (map to_lower t) = filter digit_or_dot t"
    by (simp add: lower_def digits_and_dots_filter)
  show ?case
  proof (cases "digit_or_dot c")
    case True
    with ih show ?thesis
      by (simp add: lower_def digits_and_dots_filter to_lower_digit_or_dot to_lower_keeps)
  next
    case False
    with ih show ?thesis
      by (simp add: lower_def digits_and_dots_filter to_lower_digit_or_dot)
  qed
qed

lemma first_match_sound:
  "first_match alts s = Some a \<Longrightarrow> a \<in> set alts \<and> a \<noteq> [] \<and> startswith s a"
  by (induction alts) (auto split: if_splits)

lemma digits_and_dots_append: "digits_and_dots (a @ b) = digits_and_dots a @ digits_and_dots b"
  by (simp add: digits_and_dots_def)

lemma digits_and_dots_re_sub:
  assumes "\<And>a. a \<in> set alts \<Longrightarrow> digits_and_dots a = []"
  shows "digits_and_dots (re_sub_alts alts s) = digits_and_dots s"
  using assms
proof (induction alts s rule: re_sub_alts.induct)
  case (1 alts)
  show ?case by simp
next
  case (2 alts c cs)
  show ?case
  proof (cases "first_match alts (c # cs)")
    case None
    with 2 show ?thesis by (simp add: digits_and_dots_def)
  next
    case (Some a)
    from first_match_sound [OF Some]
    have a: "a \<in> set alts" "a \<noteq> []" "take (length a) (c # cs) = a"
      by (auto simp: startswith_def)
    have "c # cs = take (length a) (c # cs) @ drop (length a) (c # cs)" by simp
    moreover from a(2) have "drop (length a) (c # cs) = drop (length a - 1) cs"
      by (cases a) auto
    ultimately have parts: "c # cs = a @ drop (length a - 1) cs" using a(3) by simp
    have "digits_and_dots (re_sub_alts alts (drop (length a - 1) cs))
          = digits_and_dots (drop (length a - 1) cs)"
      by (rule "2.IH"(2) [OF Some "2.prems"])
    with Some have "digits_and_dots (re_sub_alts alts (c # cs))
          = digits_and_dots (drop (length a - 1) cs)"
      by simp
    also have "\<dots> = digits_and_dots (a @ drop (length a - 1) cs)"
      using "2.prems" [OF a(1)] by (simp add: digits_and_dots_append)
    finally show ?thesis using parts by simp
  qed
qed

lemma millions_remainder:
  "digits_and_dots (strip (re_sub_alts [''m'', ''mil'', ''million''] (strip (lower (strip s)))))
     = digits_and_dots s"
proof -
  have "digits_and_dots (re_sub_alts [''m'', ''mil'', ''million''] t) = digits_and_dots t" for t
    by (rule digits_and_dots_re_sub) (auto simp: digits_and_dots_def is_digit_def)
  then show ?thesis
    by (simp add: digits_and_dots_strip digits_and_dots_lower)
qed

lemma mem_dropWhile: "\<not> P c \<Longrightarrow> c \<in> set (dropWhile P xs) \<longleftrightarrow> c \<in> set xs"
  by (induction xs) auto

lemma mem_strip: "\<not> is_space c \<Longrightarrow> c \<in> set (strip t) \<longleftrightarrow> c \<in> set t"
  by (simp add: strip_def mem_dropWhile)

lemma to_lower_space: "is_space x \<Longrightarrow> to_lower x = x"
proof -
  assume "is_space x"
  with space_code [of x] upper_code [of x]
  have "(of_char x :: nat) < 192" and "\<not> is_upper x" by fastforce+
  then show ?thesis by (rule to_lower_below)
qed

lemma mem_lower_strip:
  assumes "\<not> is_space c"
  shows "c \<in> set (lower (strip s)) \<longleftrightarrow> c \<in> set (lower s)"
proof
  assume "c \<in> set (lower (strip s))"
  then obtain x where "x \<in> set (strip s)" "to_lower x = c" by (auto simp: lower_def)
  moreover have "x \<in> set s" if "x \<in> set (strip s)"
  proof -
    from that have "x \<in> set (dropWhile is_space (rev (dropWhile is_space s)))"
      by (simp add: strip_def)
    then have "x \<in> set (rev (dropWhile is_space s))" by (rule set_dropWhileD)
    then have "x \<in> set (dropWhile is_space s)" by simp
    then show ?thesis by (rule set_dropWhileD)
  qed
  ultimately show "c \<in> set (lower s)" by (auto simp: lower_def)
next
  assume "c \<in> set (lower s)"
  then obtain x where x: "x \<in> set s" "to_lower x = c" by (auto simp: lower_def)
  with assms to_lower_space [of x] have "\<not> is_space x" by auto
  with x(1) have "x \<in> set (strip s)" by (simp add: mem_strip)
  with x(2) show "c \<in> set (lower (strip s))" by (auto simp: lower_def)
qed

lemma millions_marker:
  "CHR ''m'' \<in> set (strip (lower (strip s))) \<longleftrightarrow> CHR ''m'' \<in> set (lower s)"
proof -
  have "\<not> is_space CHR ''m''" by (simp add: is_space_def)
  then show ?thesis by (simp add: mem_strip mem_lower_strip)
qed

lemma float_of_int_unit: "float_of_int DEFAULT_UNIT = Inr (float_of_nat 1000000)"
  by (simp add: DEFAULT_UNIT_def float_of_int_def float_of_nat_def round_double_def
        floor_log2_def rne_def bitlen.simps Let_def)

lemma float_of_str_1_2: "float_of_str ''1.2'' = Inr (Finite False 5404319552844595 (- 52))"
  by (simp add: float_of_str_def float_strip_def is_float_space_def startswith_def lower_def
      to_lower_def is_latin_upper_def is_digit_def parse_decimal_def is_exp_mark_def parse_mantissa_def all_digits_def
      digits_val_def digit_val_def round_double_def floor_log2_def rne_def bitlen.simps Let_def)

lemma fmul_1_2_unit:
  "fmul (Finite False 5404319552844595 (- 52)) (float_of_nat 1000000) = float_of_nat 1200000"
  by (simp add: round_scaled_def float_of_nat_def round_double_def floor_log2_def rne_def
        bitlen.simps Let_def)

lemma clean_invoice_amount_marker:
  assumes "amount \<noteq> PNone" and "amount \<noteq> PFloat NaN"
    and "CHR ''m'' \<in> set (lower (py_str repr amount))"
    and "float_of_str (digits_and_dots (py_str repr amount)) = Inr v"
  shows "clean_invoice_amount repr amount = Inr (Some True, PFloat (fmul v (float_of_nat 1000000)))"
  using assms
  by (simp add: clean_invoice_amount_def Let_def millions_marker millions_remainder
        fmul_int_def float_of_int_unit bind_exn_def)

text \<open>
  Claim C6. The amount text \<^verbatim>\<open>1.2m\<close> is cleaned to the float \<^verbatim>\<open>1200000.0\<close> with the
  resolved-changed flag. More generally, when the amount, as text, holds the millions marker
  (an \<^verbatim>\<open>m\<close> in either case) and its digits and points read as the decimal \<open>v\<close>, the
  cleaned value is the float product of \<open>v\<close> and the unit 1,000,000 and the flag is
  resolved-changed.
\<close>

theorem clean_invoice_amount_millions:
  "clean_invoice_amount repr (PStr ''1.2m'') = Inr (Some True, PFloat (float_of_nat 1200000)) \<and>
   (amount \<noteq> PNone \<longrightarrow> amount \<noteq> PFloat NaN \<longrightarrow>
    CHR ''m'' \<in> set (lower (py_str repr amount)) \<longrightarrow>
    float_of_str (digits_and_dots (py_str repr amount)) = Inr v \<longrightarrow>
    clean_invoice_amount repr amount
      = Inr (Some True, PFloat (fmul v (float_of_nat 1000000))))"
proof -
  have "CHR ''m'' \<in> set (lower (py_str repr (PStr ''1.2m'')))"
    by (simp add: py_str_def lower_def to_lower_def is_latin_upper_def)
  moreover have "float_of_str (digits_and_dots (py_str repr (PStr ''1.2m'')))
                 = Inr (Finite False 5404319552844595 (- 52))"
    by (simp add: py_str_def digits_and_dots_def is_digit_def float_of_str_1_2)
  ultimately have "clean_invoice_amount repr (PStr ''1.2m'')
      = Inr (Some True, PFloat (fmul (Finite False 5404319552844595 (- 52)) (float_of_nat 1000000)))"
    by (intro clean_invoice_amount_marker) simp_all
  then show ?thesis
    by (simp add: fmul_1_2_unit clean_invoice_amount_marker)
qed

theorem clean_invoice_amount_millions_witness:
  "PStr ''2.5 Million'' \<noteq> PNone \<and> PStr ''2.5 Million'' \<noteq> PFloat NaN \<and>
   CHR ''m'' \<in> set (lower (py_str (\<lambda>x. []) (PStr ''2.5 Million''))) \<and>
   float_of_str (digits_and_dots (py_str (\<lambda>x. []) (PStr ''2.5 Million'')))
     = Inr (Finite False 5629499534213120 (- 51)) \<and>
   clean_invoice_amount (\<lambda>x. []) (PStr ''2.5 Million'')
     = Inr (Some True, PFloat (float_of_nat 2500000))"
proof -
  let ?a = "PStr ''2.5 Million''"
  have h3: "CHR ''m'' \<in> set (lower (py_str (\<lambda>x. []) ?a))"
    by (simp add: py_str_def lower_def to_lower_def is_latin_upper_def)
  have h4: "float_of_str (digits_and_dots (py_str (\<lambda>x. []) ?a))
              = Inr (Finite False 5629499534213120 (- 51))"
    by (simp add: py_str_def digits_and_dots_def float_of_str_def float_strip_def
        is_float_space_def startswith_def lower_def to_lower_def is_latin_upper_def
        is_digit_def parse_decimal_def is_exp_mark_def
        parse_mantissa_def all_digits_def digits_val_def digit_val_def round_double_def
        floor_log2_def rne_def bitlen.simps Let_def)
  have prod: "fmul (Finite False 5629499534213120 (- 51)) (float_of_nat 1000000)
                = float_of_nat 2500000"
    by (simp add: round_scaled_def float_of_nat_def round_double_def floor_log2_def rne_def
          bitlen.simps Let_def)
  from clean_invoice_amount_millions
         [of "\<lambda>x. []" ?a "Finite False 5629499534213120 (- 51)"] h3 h4
  have "clean_invoice_amount (\<lambda>x. []) ?a
          = Inr (Some True, PFloat (fmul (Finite False 5629499534213120 (- 51))
                                         (float_of_nat 1000000)))"
    by simp
  with h3 h4 prod show ?thesis by simp
qed

subsection \<open>The best match\<close>

lemma foldl_best:
  fixes b :: "string \<times> int"
  shows "foldl (\<lambda>best y. if snd best < snd y then y else best) b xs \<in> set (b # xs) \<and>
   list_all (\<lambda>x. snd x \<le> snd (foldl (\<lambda>best y. if snd best < snd y then y else best) b xs))
     (b # xs)"
proof (induction xs arbitrary: b)
  case Nil
  show ?case by simp
next
  case (Cons y ys)
  let ?f = "\<lambda>best (y :: string \<times> int). if snd best < snd y then y else best"
  let ?b' = "?f b y"
  from Cons [of ?b'] have mem: "foldl ?f ?b' ys \<in> set (?b' # ys)"
    and all: "list_all (\<lambda>x. snd x \<le> snd (foldl ?f ?b' ys)) (?b' # ys)"
    by simp_all
  from all have "snd ?b' \<le> snd (foldl ?f ?b' ys)" by simp
  moreover have "snd b \<le> snd ?b'" and "snd y \<le> snd ?b'" by auto
  ultimately have "snd b \<le> snd (foldl ?f ?b' ys)" and "snd y \<le> snd (foldl ?f ?b' ys)"
    by linarith+
  with mem all show ?case by (auto simp: list_all_iff)
qed

lemma py_max_Some:
  assumes "py_max xs = Some b"
  shows "b \<in> set xs" and "x \<in> set xs \<Longrightarrow> snd x \<le> snd b"
proof -
  from assms obtain y ys where xs: "xs = y # ys"
    and b: "b = foldl (\<lambda>best y. if snd best < snd y then y else best) y ys"
    by (auto simp: py_max_def split: list.splits)
  from foldl_best [of y ys] xs b show "b \<in> set xs" by simp
  from foldl_best [of y ys] xs b show "x \<in> set xs \<Longrightarrow> snd x \<le> snd b"
    by (auto simp: list_all_iff)
qed

lemma py_max_None: "py_max xs = None \<longleftrightarrow> xs = []"
  by (simp add: py_max_def split: list.splits)

lemma extractOne_Some:
  assumes "extractOne score query choices = Some best_match"
  shows "fst best_match \<in> set choices"
    and "c \<in> set choices \<Longrightarrow> 0 \<le> score query c \<Longrightarrow> score query c \<le> snd best_match"
proof -
  let ?xs = "filter (\<lambda>m. 0 \<le> snd m) (map (\<lambda>c. (c, score query c)) choices)"
  from assms have m: "py_max ?xs = Some best_match" by (simp add: extractOne_def)
  from py_max_Some(1) [OF m] show "fst best_match \<in> set choices" by auto
  assume "c \<in> set choices" and "0 \<le> score query c"
  then have "(c, score query c) \<in> set ?xs" by auto
  from py_max_Some(2) [OF m this] show "score query c \<le> snd best_match" by simp
qed

lemma extractOne_None:
  assumes "extractOne score query choices = None" and "c \<in> set choices"
  shows "score query c < 0"
proof (rule ccontr)
  assume "\<not> score query c < 0"
  with assms(2) have "(c, score query c)
      \<in> set (filter (\<lambda>m. 0 \<le> snd m) (map (\<lambda>c. (c, score query c)) choices))"
    by auto
  with assms(1) show False by (auto simp: extractOne_def py_max_None)
qed

lemma strict_pass_None:
  assumes "strict_pass score original correct_providers high_threshold = None"
    and "c \<in> set correct_providers" and "0 \<le> score original c"
  shows "score original c < high_threshold"
proof (cases "extractOne score original correct_providers")
  case None
  from extractOne_None [OF None assms(2)] assms(3) show ?thesis by simp
next
  case (Some best_match)
  with assms(1) have "snd best_match < high_threshold"
    by (simp add: strict_pass_def split: if_splits)
  with extractOne_Some(2) [OF Some assms(2) assms(3)] show ?thesis by simp
qed

lemma lenient_pass_Some:
  assumes "lenient_pass score original correct_providers low_threshold = Some best"
  shows "best \<in> set correct_providers"
proof -
  from assms obtain best_match
    where e: "extractOne score (lenient_text original) correct_providers = Some best_match"
      and "best = fst best_match"
    by (auto simp: lenient_pass_def split: option.splits if_splits)
  with extractOne_Some(1) [OF e] show ?thesis by simp
qed

text \<open>
  Claim C10. Assume that the similarity of any string with itself is 100. Then the second,
  lenient pass of \<^verbatim>\<open>clean_provider\<close> never gives the resolved-unchanged flag: when the
  strict pass fails (no match of score 80 or more) and the lenient pass accepts a match, that
  match differs from the trimmed input and the outcome is resolved-changed; so with a failed
  strict pass no outcome is \<^verbatim>\<open>(False, original)\<close>.
\<close>

theorem lenient_pass_never_unchanged:
  assumes self: "\<And>t. score t t = 100"
    and nonempty: "s \<noteq> []"
    and strict: "strict_pass score (strip s) correct_providers 80 = None"
  shows "(lenient_pass score (strip s) correct_providers 60 = Some best \<longrightarrow>
            best \<noteq> strip s \<and>
            clean_provider score (PStr s) correct_providers 80 60 = Inr (Some True, PStr best)) \<and>
         clean_provider score (PStr s) correct_providers 80 60 \<noteq> Inr (Some False, v)"
proof -
  have differs: "best' \<noteq> strip s"
    if "lenient_pass score (strip s) correct_providers 60 = Some best'" for best'
  proof
    assume "best' = strip s"
    with lenient_pass_Some [OF that] have "strip s \<in> set correct_providers" by simp
    from strict_pass_None [OF strict this] self [of "strip s"] show False by simp
  qed
  show ?thesis
  proof (cases "lenient_pass score (strip s) correct_providers 60")
    case None
    with nonempty strict show ?thesis by (simp add: clean_provider_def)
  next
    case (Some best')
    with nonempty strict differs [OF Some] show ?thesis
      by (auto simp: clean_provider_def matched_def Let_def)
  qed
qed

theorem lenient_pass_never_unchanged_witness:
  "(\<lambda>a b. if a = b then 100 else 0) ''x'' ''x'' = (100 :: int) \<and> ''VictorianYMCA'' \<noteq> [] \<and>
   strict_pass (\<lambda>a b. if a = b then 100 else 0) (strip ''VictorianYMCA'')
     [''Victorian YMCA''] 80 = None \<and>
   lenient_pass (\<lambda>a b. if a = b then 100 else 0) (strip ''VictorianYMCA'')
     [''Victorian YMCA''] 60 = Some ''Victorian YMCA'' \<and>
   ''Victorian YMCA'' \<noteq> strip ''VictorianYMCA'' \<and>
   clean_provider (\<lambda>a b. if a = b then 100 else 0) (PStr ''VictorianYMCA'')
     [''Victorian YMCA''] 80 60 = Inr (Some True, PStr ''Victorian YMCA'')"
proof -
  let ?score = "\<lambda>(a :: string) (b :: string). if a = b then (100 :: int) else 0"
  have st: "strip ''VictorianYMCA'' = ''VictorianYMCA''"
    by (simp add: strip_def is_space_def)
  have lt: "lenient_text ''VictorianYMCA'' = ''Victorian YMCA''"
    by (simp add: lenient_text_def camel_split_def is_upper_def is_lower_def strip_def
          is_space_def startswith_def)
  have h1: "\<And>t. ?score t t = 100" by simp
  have h2: "''VictorianYMCA'' \<noteq> []" by simp
  have h3: "strict_pass ?score (strip ''VictorianYMCA'') [''Victorian YMCA''] 80 = None"
    by (simp add: st strict_pass_def extractOne_def py_max_def)
  have h4: "lenient_pass ?score (strip ''VictorianYMCA'') [''Victorian YMCA''] 60
              = Some ''Victorian YMCA''"
    by (simp add: st lt lenient_pass_def extractOne_def py_max_def)
  from lenient_pass_never_unchanged
         [of ?score "''VictorianYMCA''" "[''Victorian YMCA'']" "''Victorian YMCA''", OF h1 h2 h3]
       h4
  have "''Victorian YMCA'' \<noteq> strip ''VictorianYMCA'' \<and>
        clean_provider ?score (PStr ''VictorianYMCA'') [''Victorian YMCA''] 80 60
          = Inr (Some True, PStr ''Victorian YMCA'')"
    by blast
  with h3 h4 show ?thesis by simp
qed



subsection \<open>The ledger of one row\<close>

lemma rows_foldl_map:
  "rows (foldl (\<lambda>d col. d\<lparr>rows := map (h col) (rows d)\<rparr>) d cs)
     = map (\<lambda>r. foldl (\<lambda>r col. h col r) r cs) (rows d)"
  by (induction cs arbitrary: d) simp_all

lemma columns_foldl_map:
  "columns (foldl (\<lambda>d col. d\<lparr>rows := map (h col) (rows d)\<rparr>) d cs) = columns d"
  by (induction cs arbitrary: d) simp_all

lemma isna_not_true: "cell_isna c \<Longrightarrow> \<not> cell_is_true c"
  by (auto simp: cell_isna_def cell_is_true_def isna_def py_eq_def dyadic_def split: cell.splits)

lemma not_flag_FailedFields: "\<not> endswith ''FailedFields'' ''_Flag''"
  by (simp add: endswith_def)

lemma not_flag_ModifiedFields: "\<not> endswith ''ModifiedFields'' ''_Flag''"
  by (simp add: endswith_def)

text \<open>What the loop leaves in a row: the two lists grow by the field names of the flag
  columns that are missing, respectively true, and no other cell changes.\<close>

lemma mark_flag_other:
  "k \<noteq> fc \<Longrightarrow> k \<noteq> mc \<Longrightarrow> mark_flag fc mc col r k = r k"
  by (simp add: mark_flag_def append_field_def Let_def)

lemma mark_flag_failed:
  assumes "fc \<noteq> mc" and "col \<noteq> fc" and "col \<noteq> mc"
  shows "as_list (mark_flag fc mc col r fc)
           = as_list (r fc) @ (if cell_isna (row_get r col) then [replace col ''_Flag'' []] else [])"
  using assms
  by (simp add: mark_flag_def append_field_def Let_def row_get_def as_list_def)

lemma mark_flag_modified:
  assumes "fc \<noteq> mc" and "col \<noteq> fc" and "col \<noteq> mc"
  shows "as_list (mark_flag fc mc col r mc)
           = as_list (r mc) @ (if cell_is_true (row_get r col) then [replace col ''_Flag'' []] else [])"
  using assms
  by (simp add: mark_flag_def append_field_def Let_def row_get_def as_list_def)

lemma ledger_fold:
  assumes "fc \<noteq> mc" and "fc \<notin> set cs" and "mc \<notin> set cs"
  shows "as_list (foldl (\<lambda>r col. mark_flag fc mc col r) r cs fc)
           = as_list (r fc)
             @ map (\<lambda>c. replace c ''_Flag'' []) (filter (\<lambda>c. cell_isna (row_get r c)) cs)
       \<and> as_list (foldl (\<lambda>r col. mark_flag fc mc col r) r cs mc)
           = as_list (r mc)
             @ map (\<lambda>c. replace c ''_Flag'' []) (filter (\<lambda>c. cell_is_true (row_get r c)) cs)"
  using assms
proof (induction cs arbitrary: r)
  case Nil
  show ?case by simp
next
  case (Cons col cs)
  let ?r = "mark_flag fc mc col r"
  from Cons.prems have ne: "col \<noteq> fc" "col \<noteq> mc" and rest: "fc \<notin> set cs" "mc \<notin> set cs"
    by auto
  have same: "row_get ?r c = row_get r c" if "c \<in> set cs" for c
  proof -
    from that rest have "c \<noteq> fc" "c \<noteq> mc" by auto
    then show ?thesis by (simp add: row_get_def mark_flag_other)
  qed
  then have f1: "filter (\<lambda>c. cell_isna (row_get ?r c)) cs = filter (\<lambda>c. cell_isna (row_get r c)) cs"
    and f2: "filter (\<lambda>c. cell_is_true (row_get ?r c)) cs
               = filter (\<lambda>c. cell_is_true (row_get r c)) cs"
    by (auto intro: filter_cong)
  from Cons.IH [OF Cons.prems(1) rest, of ?r] f1 f2
       mark_flag_failed [OF Cons.prems(1) ne, of r] mark_flag_modified [OF Cons.prems(1) ne, of r]
  show ?case by simp
qed

lemma mem_map_filter:
  assumes "distinct (map f cs)" and "c \<in> set cs"
  shows "f c \<in> set (map f (filter P cs)) \<longleftrightarrow> P c"
proof -
  from assms(1) have inj: "inj_on f (set cs)" by (simp add: distinct_map)
  show ?thesis
  proof
    assume "f c \<in> set (map f (filter P cs))"
    then obtain c' where c': "c' \<in> set cs" "P c'" "f c' = f c" by auto
    with inj assms(2) have "c' = c" by (auto dest: inj_onD)
    with c'(2) show "P c" by simp
  next
    assume "P c"
    with assms(2) show "f c \<in> set (map f (filter P cs))" by auto
  qed
qed

lemma disjoint_map_filter:
  assumes "distinct (map f cs)" and "\<And>c. P c \<Longrightarrow> \<not> Q c"
  shows "set (map f (filter P cs)) \<inter> set (map f (filter Q cs)) = {}"
proof -
  from assms(1) have inj: "inj_on f (set cs)" by (simp add: distinct_map)
  show ?thesis
  proof (rule ccontr)
    assume "set (map f (filter P cs)) \<inter> set (map f (filter Q cs)) \<noteq> {}"
    then obtain a b where "a \<in> set cs" "P a" "b \<in> set cs" "Q b" "f a = f b" by auto
    with inj have "a = b" by (auto dest: inj_onD)
    with \<open>P a\<close> \<open>Q b\<close> assms(2) show False by auto
  qed
qed

lemma init_list_col_rows:
  "length (rows (init_list_col col df)) = length (rows df)"
  by (simp add: init_list_col_def)

lemma init_list_col_nth:
  assumes "i < length (rows df)"
  shows "as_list ((rows (init_list_col col df) ! i) col)
           = (if col \<in> set (columns df) then as_list ((rows df ! i) col) else [])"
    and "k \<noteq> col \<Longrightarrow> (rows (init_list_col col df) ! i) k = (rows df ! i) k"
  using assms by (simp_all add: init_list_col_def as_list_def)

lemma init_list_col_flags:
  assumes "\<not> endswith col ''_Flag''"
  shows "filter (\<lambda>c. endswith c ''_Flag'') (columns (init_list_col col df))
           = filter (\<lambda>c. endswith c ''_Flag'') (columns df)"
  using assms by (simp add: init_list_col_def)

text \<open>
  Claim C3, as stated, does not hold for every frame. The field name of a flag column is the
  column name with every \<^verbatim>\<open>_Flag\<close> removed, so two flag columns can stand for the same
  field name: with the columns \<^verbatim>\<open>A_Flag\<close> (flag missing) and \<^verbatim>\<open>A_Flag_Flag\<close> (flag
  \<^verbatim>\<open>True\<close>) the name \<^verbatim>\<open>A\<close> is in both lists. And a list that the frame brings
  along is kept: a row that comes with \<^verbatim>\<open>Provider\<close> in its failed list and whose
  provider flag is \<^verbatim>\<open>True\<close> has \<^verbatim>\<open>Provider\<close> in both lists, though its flag is
  not missing.
\<close>

theorem record_issue_name_in_both_lists:
  "as_list ((rows (record_issue
      \<lparr>columns = [''A_Flag'', ''A_Flag_Flag''],
       rows = [[''A_Flag'' \<mapsto> Val PNone, ''A_Flag_Flag'' \<mapsto> Val (PBool True)]]\<rparr>
      ''FailedFields'' ''ModifiedFields'') ! 0) ''FailedFields'') = [''A''] \<and>
   as_list ((rows (record_issue
      \<lparr>columns = [''A_Flag'', ''A_Flag_Flag''],
       rows = [[''A_Flag'' \<mapsto> Val PNone, ''A_Flag_Flag'' \<mapsto> Val (PBool True)]]\<rparr>
      ''FailedFields'' ''ModifiedFields'') ! 0) ''ModifiedFields'') = [''A''] \<and>
   as_list ((rows (record_issue
      \<lparr>columns = [''Provider_Flag'', ''FailedFields''],
       rows = [[''Provider_Flag'' \<mapsto> Val (PBool True),
                ''FailedFields'' \<mapsto> Lst [''Provider'']]]\<rparr>
      ''FailedFields'' ''ModifiedFields'') ! 0) ''FailedFields'') = [''Provider''] \<and>
   as_list ((rows (record_issue
      \<lparr>columns = [''Provider_Flag'', ''FailedFields''],
       rows = [[''Provider_Flag'' \<mapsto> Val (PBool True),
                ''FailedFields'' \<mapsto> Lst [''Provider'']]]\<rparr>
      ''FailedFields'' ''ModifiedFields'') ! 0) ''ModifiedFields'') = [''Provider'']"
  by (simp add: record_issue_def init_list_col_def mark_flag_def append_field_def as_list_def
        row_get_def cell_isna_def cell_is_true_def isna_def py_eq_def dyadic_def endswith_def
        replace_def startswith_def Let_def)

text \<open>
  Claim C3, amended. Take a frame in which the flag columns stand for pairwise distinct
  field names, and a row of it that comes without entries in its two ledger lists, as the
  rows of the pipeline do. Then in that row, after \<^verbatim>\<open>record_issue\<close>, the field of a
  flag column is in the failed list exactly when its flag is missing (\<^verbatim>\<open>None\<close> or NaN)
  and in the modified list exactly when its flag equals \<^verbatim>\<open>True\<close>, and no field name is
  in both lists. In particular a flag \<^verbatim>\<open>True\<close> puts the field into the modified list
  only, a missing flag into the failed list only, and a flag \<^verbatim>\<open>False\<close> into neither.
\<close>

theorem record_issue_ledger:
  assumes fields: "distinct (map (\<lambda>c. replace c ''_Flag'' [])
                     (filter (\<lambda>c. endswith c ''_Flag'') (columns df)))"
    and i: "i < length (rows df)"
    and failed_empty: "as_list ((rows df ! i) ''FailedFields'') = []"
    and modified_empty: "as_list ((rows df ! i) ''ModifiedFields'') = []"
    and col: "col \<in> set (columns df)" "endswith col ''_Flag''"
  shows "(replace col ''_Flag'' []
            \<in> set (as_list ((rows (record_issue df ''FailedFields'' ''ModifiedFields'') ! i)
                     ''FailedFields''))
          \<longleftrightarrow> (\<exists>v. row_get (rows df ! i) col = Val v \<and> isna v)) \<and>
         (replace col ''_Flag'' []
            \<in> set (as_list ((rows (record_issue df ''FailedFields'' ''ModifiedFields'') ! i)
                     ''ModifiedFields''))
          \<longleftrightarrow> (\<exists>v. row_get (rows df ! i) col = Val v \<and> py_eq v (PBool True))) \<and>
         set (as_list ((rows (record_issue df ''FailedFields'' ''ModifiedFields'') ! i)
                ''FailedFields''))
           \<inter> set (as_list ((rows (record_issue df ''FailedFields'' ''ModifiedFields'') ! i)
                ''ModifiedFields'')) = {} \<and>
         (row_get (rows df ! i) col = Val (PBool True) \<longrightarrow>
            replace col ''_Flag'' []
              \<in> set (as_list ((rows (record_issue df ''FailedFields'' ''ModifiedFields'') ! i)
                       ''ModifiedFields'')) \<and>
            replace col ''_Flag'' []
              \<notin> set (as_list ((rows (record_issue df ''FailedFields'' ''ModifiedFields'') ! i)
                       ''FailedFields''))) \<and>
         (row_get (rows df ! i) col = Val PNone \<longrightarrow>
            replace col ''_Flag'' []
              \<in> set (as_list ((rows (record_issue df ''FailedFields'' ''ModifiedFields'') ! i)
                       ''FailedFields'')) \<and>
            replace col ''_Flag'' []
              \<notin> set (as_list ((rows (record_issue df ''FailedFields'' ''ModifiedFields'') ! i)
                       ''ModifiedFields''))) \<and>
         (row_get (rows df ! i) col = Val (PBool False) \<longrightarrow>
            replace col ''_Flag'' []
              \<notin> set (as_list ((rows (record_issue df ''FailedFields'' ''ModifiedFields'') ! i)
                       ''FailedFields'')) \<and>
            replace col ''_Flag'' []
              \<notin> set (as_list ((rows (record_issue df ''FailedFields'' ''ModifiedFields'') ! i)
                       ''ModifiedFields'')))"
proof -
  let ?fc = "''FailedFields''" and ?mc = "''ModifiedFields''"
  let ?field = "\<lambda>c. replace c ''_Flag'' []"
  let ?cs = "filter (\<lambda>c. endswith c ''_Flag'') (columns df)"
  let ?df1 = "init_list_col ?fc df"
  let ?df2 = "init_list_col ?mc ?df1"
  let ?r = "rows df ! i" and ?r2 = "rows ?df2 ! i"
  let ?r' = "rows (record_issue df ?fc ?mc) ! i"
  have ne: "?fc \<noteq> ?mc" by simp
  have notin: "?fc \<notin> set ?cs" "?mc \<notin> set ?cs"
    using not_flag_FailedFields not_flag_ModifiedFields by auto
  have flags: "filter (\<lambda>c. endswith c ''_Flag'') (columns ?df2) = ?cs"
    by (simp add: init_list_col_flags not_flag_FailedFields not_flag_ModifiedFields)
  from i have i1: "i < length (rows ?df1)" by (simp add: init_list_col_rows)
  then have i2: "i < length (rows ?df2)" by (simp add: init_list_col_rows)
  have r'_eq: "?r' = foldl (\<lambda>r col. mark_flag ?fc ?mc col r) ?r2 ?cs"
    using i2 by (simp add: record_issue_def Let_def flags rows_foldl_map)
  have f0: "as_list (?r2 ?fc) = []"
  proof -
    have "as_list (?r2 ?fc) = as_list ((rows ?df1 ! i) ?fc)"
      using init_list_col_nth(2) [OF i1, of ?fc ?mc] by simp
    also have "\<dots> = []" using init_list_col_nth(1) [OF i, of ?fc] failed_empty by simp
    finally show ?thesis .
  qed
  have m0: "as_list (?r2 ?mc) = []"
  proof -
    have "(rows ?df1 ! i) ?mc = ?r ?mc"
      using init_list_col_nth(2) [OF i, of ?mc ?fc] by simp
    with init_list_col_nth(1) [OF i1, of ?mc] modified_empty show ?thesis by simp
  qed
  have same: "row_get ?r2 c = row_get ?r c" if "c \<in> set ?cs" for c
  proof -
    from that notin have c: "c \<noteq> ?fc" "c \<noteq> ?mc" by auto
    have "?r2 c = (rows ?df1 ! i) c" using init_list_col_nth(2) [OF i1, of c ?mc] c by simp
    also have "\<dots> = ?r c" using init_list_col_nth(2) [OF i, of c ?fc] c by simp
    finally show ?thesis by (simp add: row_get_def)
  qed
  then have fl: "filter (\<lambda>c. cell_isna (row_get ?r2 c)) ?cs
                   = filter (\<lambda>c. cell_isna (row_get ?r c)) ?cs"
    and ml: "filter (\<lambda>c. cell_is_true (row_get ?r2 c)) ?cs
               = filter (\<lambda>c. cell_is_true (row_get ?r c)) ?cs"
    by (auto intro: filter_cong)
  from ledger_fold [OF ne notin, of ?r2] r'_eq f0 m0 fl ml
  have failed: "as_list (?r' ?fc) = map ?field (filter (\<lambda>c. cell_isna (row_get ?r c)) ?cs)"
    and modified: "as_list (?r' ?mc)
                     = map ?field (filter (\<lambda>c. cell_is_true (row_get ?r c)) ?cs)"
    by simp_all
  from col have mem: "col \<in> set ?cs" by simp
  have na: "cell_isna c \<longleftrightarrow> (\<exists>v. c = Val v \<and> isna v)" for c
    by (cases c) (simp_all add: cell_isna_def)
  have tr: "cell_is_true c \<longleftrightarrow> (\<exists>v. c = Val v \<and> py_eq v (PBool True))" for c
    by (cases c) (simp_all add: cell_is_true_def)
  have a: "?field col \<in> set (as_list (?r' ?fc))
             \<longleftrightarrow> (\<exists>v. row_get ?r col = Val v \<and> isna v)"
    unfolding failed na [symmetric] by (rule mem_map_filter [OF fields mem])
  have b: "?field col \<in> set (as_list (?r' ?mc))
             \<longleftrightarrow> (\<exists>v. row_get ?r col = Val v \<and> py_eq v (PBool True))"
    unfolding modified tr [symmetric] by (rule mem_map_filter [OF fields mem])
  have c: "set (as_list (?r' ?fc)) \<inter> set (as_list (?r' ?mc)) = {}"
    unfolding failed modified by (rule disjoint_map_filter [OF fields]) (rule isna_not_true)
  have t: "py_eq (PBool True) (PBool True)" "\<not> isna (PBool True)"
    "isna PNone" "\<not> py_eq PNone (PBool True)"
    "\<not> isna (PBool False)" "\<not> py_eq (PBool False) (PBool True)"
    by (simp_all add: py_eq_def dyadic_def isna_def)
  have d: "row_get ?r col = Val (PBool True) \<longrightarrow>
             ?field col \<in> set (as_list (?r' ?mc)) \<and> ?field col \<notin> set (as_list (?r' ?fc))"
    unfolding a b using t by auto
  have e: "row_get ?r col = Val PNone \<longrightarrow>
             ?field col \<in> set (as_list (?r' ?fc)) \<and> ?field col \<notin> set (as_list (?r' ?mc))"
    unfolding a b using t by auto
  have f: "row_get ?r col = Val (PBool False) \<longrightarrow>
             ?field col \<notin> set (as_list (?r' ?fc)) \<and> ?field col \<notin> set (as_list (?r' ?mc))"
    unfolding a b using t by auto
  from a b c d e f show ?thesis by blast
qed

theorem record_issue_ledger_witness:
  "distinct (map (\<lambda>c. replace c ''_Flag'' [])
     (filter (\<lambda>c. endswith c ''_Flag'')
        (columns \<lparr>columns = [''Provider_Flag'', ''InvoiceAmount_Flag'', ''InvoiceDate_Flag''],
                  rows = [[''Provider_Flag'' \<mapsto> Val (PBool True),
                           ''InvoiceAmount_Flag'' \<mapsto> Val PNone,
                           ''InvoiceDate_Flag'' \<mapsto> Val (PBool False)]]\<rparr>))) \<and>
   ''Provider''
     \<in> set (as_list ((rows (record_issue
          \<lparr>columns = [''Provider_Flag'', ''InvoiceAmount_Flag'', ''InvoiceDate_Flag''],
           rows = [[''Provider_Flag'' \<mapsto> Val (PBool True),
                    ''InvoiceAmount_Flag'' \<mapsto> Val PNone,
                    ''InvoiceDate_Flag'' \<mapsto> Val (PBool False)]]\<rparr>
          ''FailedFields'' ''ModifiedFields'') ! 0) ''ModifiedFields'')) \<and>
   ''Provider''
     \<notin> set (as_list ((rows (record_issue
          \<lparr>columns = [''Provider_Flag'', ''InvoiceAmount_Flag'', ''InvoiceDate_Flag''],
           rows = [[''Provider_Flag'' \<mapsto> Val (PBool True),
                    ''InvoiceAmount_Flag'' \<mapsto> Val PNone,
                    ''InvoiceDate_Flag'' \<mapsto> Val (PBool False)]]\<rparr>
          ''FailedFields'' ''ModifiedFields'') ! 0) ''FailedFields'')) \<and>
   ''InvoiceAmount''
     \<in> set (as_list ((rows (record_issue
          \<lparr>columns = [''Provider_Flag'', ''InvoiceAmount_Flag'', ''InvoiceDate_Flag''],
           rows = [[''Provider_Flag'' \<mapsto> Val (PBool True),
                    ''InvoiceAmount_Flag'' \<mapsto> Val PNone,
                    ''InvoiceDate_Flag'' \<mapsto> Val (PBool False)]]\<rparr>
          ''FailedFields'' ''ModifiedFields'') ! 0) ''FailedFields'')) \<and>
   ''InvoiceAmount''
     \<notin> set (as_list ((rows (record_issue
          \<lparr>columns = [''Provider_Flag'', ''InvoiceAmount_Flag'', ''InvoiceDate_Flag''],
           rows = [[''Provider_Flag'' \<mapsto> Val (PBool True),
                    ''InvoiceAmount_Flag'' \<mapsto> Val PNone,
                    ''InvoiceDate_Flag'' \<mapsto> Val (PBool False)]]\<rparr>
          ''FailedFields'' ''ModifiedFields'') ! 0) ''ModifiedFields'')) \<and>
   ''InvoiceDate''
     \<notin> set (as_list ((rows (record_issue
          \<lparr>columns = [''Provider_Flag'', ''InvoiceAmount_Flag'', ''InvoiceDate_Flag''],
           rows = [[''Provider_Flag'' \<mapsto> Val (PBool True),
                    ''InvoiceAmount_Flag'' \<mapsto> Val PNone,
                    ''InvoiceDate_Flag'' \<mapsto> Val (PBool False)]]\<rparr>
          ''FailedFields'' ''ModifiedFields'') ! 0) ''FailedFields'')) \<and>
   ''InvoiceDate''
     \<notin> set (as_list ((rows (record_issue
          \<lparr>columns = [''Provider_Flag'', ''InvoiceAmount_Flag'', ''InvoiceDate_Flag''],
           rows = [[''Provider_Flag'' \<mapsto> Val (PBool True),
                    ''InvoiceAmount_Flag'' \<mapsto> Val PNone,
                    ''InvoiceDate_Flag'' \<mapsto> Val (PBool False)]]\<rparr>
          ''FailedFields'' ''ModifiedFields'') ! 0) ''ModifiedFields'')) \<and>
   set (as_list ((rows (record_issue
          \<lparr>columns = [''Provider_Flag'', ''InvoiceAmount_Flag'', ''InvoiceDate_Flag''],
           rows = [[''Provider_Flag'' \<mapsto> Val (PBool True),
                    ''InvoiceAmount_Flag'' \<mapsto> Val PNone,
                    ''InvoiceDate_Flag'' \<mapsto> Val (PBool False)]]\<rparr>
          ''FailedFields'' ''ModifiedFields'') ! 0) ''FailedFields''))
     \<inter> set (as_list ((rows (record_issue
          \<lparr>columns = [''Provider_Flag'', ''InvoiceAmount_Flag'', ''InvoiceDate_Flag''],
           rows = [[''Provider_Flag'' \<mapsto> Val (PBool True),
                    ''InvoiceAmount_Flag'' \<mapsto> Val PNone,
                    ''InvoiceDate_Flag'' \<mapsto> Val (PBool False)]]\<rparr>
          ''FailedFields'' ''ModifiedFields'') ! 0) ''ModifiedFields'')) = {}"
proof -
  let ?row = "[''Provider_Flag'' \<mapsto> Val (PBool True), ''InvoiceAmount_Flag'' \<mapsto> Val PNone,
               ''InvoiceDate_Flag'' \<mapsto> Val (PBool False)]"
  let ?df = "\<lparr>columns = [''Provider_Flag'', ''InvoiceAmount_Flag'', ''InvoiceDate_Flag''],
              rows = [?row]\<rparr>"
  have field: "replace ''Provider_Flag'' ''_Flag'' [] = ''Provider''"
    "replace ''InvoiceAmount_Flag'' ''_Flag'' [] = ''InvoiceAmount''"
    "replace ''InvoiceDate_Flag'' ''_Flag'' [] = ''InvoiceDate''"
    by (simp_all add: replace_def startswith_def)
  have h1: "distinct (map (\<lambda>c. replace c ''_Flag'' [])
              (filter (\<lambda>c. endswith c ''_Flag'') (columns ?df)))"
    by (simp add: endswith_def replace_def startswith_def)
  have h2: "0 < length (rows ?df)" by simp
  have h3: "as_list ((rows ?df ! 0) ''FailedFields'') = []" by (simp add: as_list_def)
  have h4: "as_list ((rows ?df ! 0) ''ModifiedFields'') = []" by (simp add: as_list_def)
  have cols: "''Provider_Flag'' \<in> set (columns ?df)" "''InvoiceAmount_Flag'' \<in> set (columns ?df)"
    "''InvoiceDate_Flag'' \<in> set (columns ?df)"
    by simp_all
  have ends: "endswith ''Provider_Flag'' ''_Flag''" "endswith ''InvoiceAmount_Flag'' ''_Flag''"
    "endswith ''InvoiceDate_Flag'' ''_Flag''"
    by (simp_all add: endswith_def)
  have flag: "row_get (rows ?df ! 0) ''Provider_Flag'' = Val (PBool True)"
    "row_get (rows ?df ! 0) ''InvoiceAmount_Flag'' = Val PNone"
    "row_get (rows ?df ! 0) ''InvoiceDate_Flag'' = Val (PBool False)"
    by (simp_all add: row_get_def)
  from record_issue_ledger [OF h1 h2 h3 h4 cols(1) ends(1)] flag(1) field(1)
  have p: "''Provider'' \<in> set (as_list ((rows (record_issue ?df ''FailedFields''
              ''ModifiedFields'') ! 0) ''ModifiedFields'')) \<and>
           ''Provider'' \<notin> set (as_list ((rows (record_issue ?df ''FailedFields''
              ''ModifiedFields'') ! 0) ''FailedFields'')) \<and>
           set (as_list ((rows (record_issue ?df ''FailedFields'' ''ModifiedFields'') ! 0)
              ''FailedFields''))
             \<inter> set (as_list ((rows (record_issue ?df ''FailedFields'' ''ModifiedFields'') ! 0)
              ''ModifiedFields'')) = {}"
    by (simp add: isna_def py_eq_def dyadic_def)
  from record_issue_ledger [OF h1 h2 h3 h4 cols(2) ends(2)] flag(2) field(2)
  have a: "''InvoiceAmount'' \<in> set (as_list ((rows (record_issue ?df ''FailedFields''
              ''ModifiedFields'') ! 0) ''FailedFields'')) \<and>
           ''InvoiceAmount'' \<notin> set (as_list ((rows (record_issue ?df ''FailedFields''
              ''ModifiedFields'') ! 0) ''ModifiedFields''))"
    by (simp add: isna_def py_eq_def dyadic_def)
  from record_issue_ledger [OF h1 h2 h3 h4 cols(3) ends(3)] flag(3) field(3)
  have d: "''InvoiceDate'' \<notin> set (as_list ((rows (record_issue ?df ''FailedFields''
              ''ModifiedFields'') ! 0) ''FailedFields'')) \<and>
           ''InvoiceDate'' \<notin> set (as_list ((rows (record_issue ?df ''FailedFields''
              ''ModifiedFields'') ! 0) ''ModifiedFields''))"
    by (simp add: isna_def py_eq_def dyadic_def)
  from h1 p a d show ?thesis by simp
qed

subsection \<open>Texts that stripping and replacing leave alone\<close>







subsection \<open>Digits\<close>
















subsection \<open>Reading back an ISO date\<close>








subsection \<open>Reading a plain amount\<close>




















subsection \<open>The normalizers return, and what they return\<close>


















end
